theory Spec2Isabelle
  imports Main "HOL-Library.Sublist"
begin

section \<open>JavaScript values\<close>

text \<open>
  The site plan reaches the generator as the result of \<^verbatim>\<open>JSON.parse\<close>, so the
  values found under \<^verbatim>\<open>props\<close> (declared \<^verbatim>\<open>z.record(z.any())\<close>) are exactly the JSON
  values. A string is kept as the list of its UTF-8 bytes: concatenation and equality
  with an ASCII literal, the only operations the generator applies, are the same on
  bytes as on UTF-16 code units. A number is kept as the text that \<^verbatim>\<open>String(n)\<close> gives
  for it (\<^verbatim>\<open>''0''\<close> for both zeros), which is all the code ever reads of a number.
  An object is the list of its own properties in enumeration order, each key once.
\<close>

datatype json =
    JNull
  | JBool bool
  | JNum string
  | JStr string
  | JArr "json list"
  | JObj "(string \<times> json) list"

text \<open>What a \<^verbatim>\<open>throw\<close> carries: the constructor gives \<^verbatim>\<open>error.name\<close>.\<close>

datatype issue_code = invalid_type | invalid_enum_value | too_small | too_big

datatype path_part = Key string | Index nat

record issue =
  code :: issue_code
  path :: "path_part list"

datatype exn =
    ZodError "issue list"
  | TypeError string
  | SyntaxError string
  | Error string

type_synonym 'a result = "exn + 'a"

definition bind :: "'a result \<Rightarrow> ('a \<Rightarrow> 'b result) \<Rightarrow> 'b result" where
  "bind m f = (case m of Inl e \<Rightarrow> Inl e | Inr x \<Rightarrow> f x)"

text \<open>\<^verbatim>\<open>Array.prototype.map\<close> with a callback that may throw: the first throw ends the walk.\<close>

fun map_result :: "('a \<Rightarrow> 'b result) \<Rightarrow> 'a list \<Rightarrow> 'b list result" where
  "map_result f [] = Inr []"
| "map_result f (x # xs) = bind (f x) (\<lambda>y. bind (map_result f xs) (\<lambda>ys. Inr (y # ys)))"

text \<open>\<^verbatim>\<open>Array.prototype.join\<close> on an array of strings.\<close>

fun join :: "string \<Rightarrow> string list \<Rightarrow> string" where
  "join sep [] = []"
| "join sep [x] = x"
| "join sep (x # y # ys) = x @ sep @ join sep (y # ys)"

text \<open>
  A property read \<^verbatim>\<open>o.k\<close> on a plain object, for a key that \<^verbatim>\<open>Object.prototype\<close> does
  not define (every key the generator and the schema read): \<open>None\<close> is \<^verbatim>\<open>undefined\<close>.
\<close>

definition lookup :: "(string \<times> 'v) list \<Rightarrow> string \<Rightarrow> 'v option" where
  "lookup kvs k = map_of kvs k"

text \<open>Truthiness, as \<^verbatim>\<open>||\<close> and \<^verbatim>\<open>?:\<close> test it.\<close>

fun truthy :: "json option \<Rightarrow> bool" where
  "truthy None = False"
| "truthy (Some JNull) = False"
| "truthy (Some (JBool b)) = b"
| "truthy (Some (JNum n)) = (n \<noteq> ''0'')"
| "truthy (Some (JStr s)) = (s \<noteq> [])"
| "truthy (Some (JArr xs)) = True"
| "truthy (Some (JObj kvs)) = True"

text \<open>
  \<^verbatim>\<open>ToString\<close>, which a template literal applies to each \<^verbatim>\<open>${...}\<close>. An array prints
  its elements joined by commas, \<^verbatim>\<open>null\<close> elements as the empty string. A plain object
  prints as \<^verbatim>\<open>[object Object]\<close> through the inherited \<^verbatim>\<open>toString\<close>; when the object has
  an own property of that name, its value (JSON data, never callable) hides the
  inherited method, \<^verbatim>\<open>valueOf\<close> returns the object itself, and the conversion throws.
\<close>

fun ToString :: "json \<Rightarrow> string result"
  and join_elements :: "json list \<Rightarrow> string list result" where
  "ToString JNull = Inr ''null''"
| "ToString (JBool b) = Inr (if b then ''true'' else ''false'')"
| "ToString (JNum n) = Inr n"
| "ToString (JStr s) = Inr s"
| "ToString (JArr xs) = bind (join_elements xs) (\<lambda>ss. Inr (join '','' ss))"
| "ToString (JObj kvs) =
     (if ''toString'' \<in> set (map fst kvs)
      then Inl (TypeError ''Cannot convert object to primitive value'')
      else Inr ''[object Object]'')"
| "join_elements [] = Inr []"
| "join_elements (x # xs) =
     bind (if x = JNull then Inr [] else ToString x)
       (\<lambda>s. bind (join_elements xs) (\<lambda>ss. Inr (s # ss)))"

text \<open>\<^verbatim>\<open>${e}\<close> for an expression that may be \<^verbatim>\<open>undefined\<close>.\<close>

fun interpolate :: "json option \<Rightarrow> string result" where
  "interpolate None = Inr ''undefined''"
| "interpolate (Some v) = ToString v"

text \<open>\<^verbatim>\<open>${e || d}\<close> for a string literal \<^verbatim>\<open>d\<close>.\<close>

definition or_else :: "json option \<Rightarrow> string \<Rightarrow> string result" where
  "or_else e d = (if truthy e then interpolate e else Inr d)"

subsection \<open>\<^verbatim>\<open>JSON.stringify\<close>\<close>

definition hex_digit :: "nat \<Rightarrow> char" where
  "hex_digit n = ''0123456789abcdef'' ! (n mod 16)"

definition quote_char :: "char \<Rightarrow> string" where
  "quote_char c =
     (if c = CHR 0x08 then [CHR 0x5C, CHR ''b'']
      else if c = CHR 0x09 then [CHR 0x5C, CHR ''t'']
      else if c = CHR 0x0A then [CHR 0x5C, CHR ''n'']
      else if c = CHR 0x0C then [CHR 0x5C, CHR ''f'']
      else if c = CHR 0x0D then [CHR 0x5C, CHR ''r'']
      else if c = CHR 0x22 then [CHR 0x5C, CHR 0x22]
      else if c = CHR 0x5C then [CHR 0x5C, CHR 0x5C]
      else if (of_char c :: nat) < 32
        then [CHR 0x5C, CHR ''u'', CHR ''0'', CHR ''0'',
              hex_digit (of_char c div 16), hex_digit (of_char c)]
      else [c])"

definition quote :: "string \<Rightarrow> string" where
  "quote s = [CHR 0x22] @ concat (map quote_char s) @ [CHR 0x22]"

text \<open>
  \<open>serialize gap indent v\<close> is \<^verbatim>\<open>SerializeJSONProperty\<close> of the language standard with
  the gap string \<open>gap\<close> at the current indentation \<open>indent\<close>. No JSON value has a
  \<^verbatim>\<open>toJSON\<close> method or an \<^verbatim>\<open>undefined\<close> member, so every member is printed.
\<close>

fun serialize :: "string \<Rightarrow> string \<Rightarrow> json \<Rightarrow> string"
  and serialize_elements :: "string \<Rightarrow> string \<Rightarrow> json list \<Rightarrow> string list"
  and serialize_members :: "string \<Rightarrow> string \<Rightarrow> (string \<times> json) list \<Rightarrow> string list" where
  "serialize gap indent JNull = ''null''"
| "serialize gap indent (JBool b) = (if b then ''true'' else ''false'')"
| "serialize gap indent (JNum n) = n"
| "serialize gap indent (JStr s) = quote s"
| "serialize gap indent (JArr xs) =
     (if xs = [] then ''[]''
      else if gap = [] then ''['' @ join '','' (serialize_elements gap (indent @ gap) xs) @ '']''
      else ''['' @ [CHR 0x0A] @ (indent @ gap)
           @ join ('','' @ [CHR 0x0A] @ (indent @ gap)) (serialize_elements gap (indent @ gap) xs)
           @ [CHR 0x0A] @ indent @ '']'')"
| "serialize gap indent (JObj kvs) =
     (if kvs = [] then ''{}''
      else if gap = [] then ''{'' @ join '','' (serialize_members gap (indent @ gap) kvs) @ ''}''
      else ''{'' @ [CHR 0x0A] @ (indent @ gap)
           @ join ('','' @ [CHR 0x0A] @ (indent @ gap)) (serialize_members gap (indent @ gap) kvs)
           @ [CHR 0x0A] @ indent @ ''}'')"
| "serialize_elements gap indent [] = []"
| "serialize_elements gap indent (x # xs) =
     serialize gap indent x # serialize_elements gap indent xs"
| "serialize_members gap indent [] = []"
| "serialize_members gap indent ((k, v) # kvs) =
     (quote k @ '':'' @ (if gap = [] then [] else '' '') @ serialize gap indent v)
       # serialize_members gap indent kvs"

text \<open>\<^verbatim>\<open>JSON.stringify(v)\<close> and \<^verbatim>\<open>JSON.stringify(v, null, 2)\<close>.\<close>

definition stringify :: "json \<Rightarrow> string" where
  "stringify v = serialize [] [] v"

definition stringify2 :: "json \<Rightarrow> string" where
  "stringify2 v = serialize ''  '' [] v"

section \<open>The data model (\<^verbatim>\<open>lib/validation.ts\<close>)\<close>

text \<open>\<^verbatim>\<open>SitePlan\<close>, the type inferred from \<^verbatim>\<open>SitePlanSchema\<close>.\<close>

record Meta =
  title :: string
  description :: string
  language :: string

record Image =
  id_image :: string
  prompt :: "string option"
  url :: "string option"

record Assets =
  images :: "Image list"

record Section =
  id_section :: string
  type_section :: string
  props :: "(string \<times> json) list"

record Style =
  colors :: "(string \<times> string) list"
  font :: "string option"

record SitePlan =
  meta :: Meta
  assets :: Assets
  sections :: "Section list"
  style :: Style

text \<open>\<^verbatim>\<open>GeneratedFiles\<close>.\<close>

record File =
  path_file :: string
  content :: string

record GeneratedFiles =
  files :: "File list"

text \<open>\<^verbatim>\<open>BuildRequest['framework']\<close>, the union of three string literals.\<close>

datatype framework = Vanilla | React | Next

section \<open>The generator (\<^verbatim>\<open>lib/codegen.ts\<close>)\<close>

text \<open>\<^verbatim>\<open>s || d\<close> for an optional string \<^verbatim>\<open>s\<close>: the empty string is falsy too.\<close>

definition str_or :: "string option \<Rightarrow> string \<Rightarrow> string" where
  "str_or s d = (case s of None \<Rightarrow> d | Some v \<Rightarrow> if v = [] then d else v)"

text \<open>
  \<^verbatim>\<open>item.k\<close> for an element of \<^verbatim>\<open>items\<close> and a key that no built-in prototype defines
  (\<^verbatim>\<open>title\<close>, \<^verbatim>\<open>description\<close>): reading a property of \<^verbatim>\<open>null\<close> throws, a primitive
  or an array has no such property. The messages are those of V8.
\<close>

fun get :: "json \<Rightarrow> string \<Rightarrow> json option result" where
  "get JNull k =
     Inl (TypeError (''Cannot read properties of null (reading '' @ [CHR 0x27] @ k @ [CHR 0x27] @ '')''))"
| "get (JObj kvs) k = Inr (lookup kvs k)"
| "get v k = Inr None"

subsection \<open>\<^verbatim>\<open>renderHtml\<close>\<close>

definition renderHtml_item :: "json \<Rightarrow> string result" where
  \<open>renderHtml_item item =
     bind (get item ''title'') (\<lambda>t. bind (interpolate t) (\<lambda>item_title.
     bind (get item ''description'') (\<lambda>d. bind (interpolate d) (\<lambda>item_description.
     Inr (''\<newline>'' @
     ''        <div class="feature-item">\<newline>'' @
     ''          <h3>'' @ item_title @ ''</h3>\<newline>'' @
     ''          <p>'' @ item_description @ ''</p>\<newline>'' @
     ''        </div>'')))))\<close>

text \<open>
  \<^verbatim>\<open>(section.props.items || []).map(...).join('')\<close>: only an array has a callable
  \<^verbatim>\<open>map\<close>, so a truthy value of any other kind throws.
\<close>

definition renderHtml_items :: "json option \<Rightarrow> string result" where
  "renderHtml_items v =
     (if truthy v then
        (case v of
           Some (JArr xs) \<Rightarrow> bind (map_result renderHtml_item xs) (\<lambda>fs. Inr (join [] fs))
         | _ \<Rightarrow> Inl (TypeError ''(section.props.items || []).map is not a function''))
      else Inr (join [] []))"

definition renderHtml_section :: "Section \<Rightarrow> string result" where
  \<open>renderHtml_section section =
     (if type_section section = ''hero'' then
        bind (or_else (lookup (props section) ''title'') ''Welcome'') (\<lambda>title.
        bind (or_else (lookup (props section) ''subtitle'') []) (\<lambda>subtitle.
        bind (if truthy (lookup (props section) ''cta'')
              then bind (interpolate (lookup (props section) ''cta''))
                     (\<lambda>cta. Inr (''<button class="cta-button">'' @ cta @ ''</button>''))
              else Inr []) (\<lambda>cta.
        Inr (''\<newline>'' @
     ''    <section id="'' @ id_section section @ ''" class="hero">\<newline>'' @
     ''      <h1>'' @ title @ ''</h1>\<newline>'' @
     ''      <p>'' @ subtitle @ ''</p>\<newline>'' @
     ''      '' @ cta @ ''\<newline>'' @
     ''    </section>''))))
      else if type_section section = ''features'' then
        bind (or_else (lookup (props section) ''title'') ''Features'') (\<lambda>title.
        bind (renderHtml_items (lookup (props section) ''items'')) (\<lambda>items.
        Inr (''\<newline>'' @
     ''    <section id="'' @ id_section section @ ''" class="features">\<newline>'' @
     ''      <h2>'' @ title @ ''</h2>\<newline>'' @
     ''      <div class="features-grid">\<newline>'' @
     ''        '' @ items @ ''\<newline>'' @
     ''      </div>\<newline>'' @
     ''    </section>'')))
      else if type_section section = ''contact'' then
        bind (or_else (lookup (props section) ''title'') ''Contact'') (\<lambda>title.
        bind (or_else (lookup (props section) ''email'') []) (\<lambda>email.
        bind (or_else (lookup (props section) ''phone'') []) (\<lambda>phone.
        bind (or_else (lookup (props section) ''address'') []) (\<lambda>address.
        Inr (''\<newline>'' @
     ''    <section id="'' @ id_section section @ ''" class="contact">\<newline>'' @
     ''      <h2>'' @ title @ ''</h2>\<newline>'' @
     ''      <p>'' @ email @ ''</p>\<newline>'' @
     ''      <p>'' @ phone @ ''</p>\<newline>'' @
     ''      <p>'' @ address @ ''</p>\<newline>'' @
     ''    </section>'')))))
      else
        Inr (''\<newline>'' @
     ''    <section id="'' @ id_section section @ ''" class="'' @ type_section section @ ''">\<newline>'' @
     ''      <pre>'' @ stringify2 (JObj (props section)) @ ''</pre>\<newline>'' @
     ''    </section>''))\<close>

definition renderHtml :: "SitePlan \<Rightarrow> string result" where
  \<open>renderHtml plan =
     (let isRTL = (language (meta plan) = ''fa'') in
      bind (map_result renderHtml_section (sections plan)) (\<lambda>rendered.
      let sections = join ''\<newline>'' rendered in
      Inr (''<!DOCTYPE html>\<newline>'' @
     ''<html lang="'' @ language (meta plan) @ ''" '' @ (if isRTL then ''dir="rtl"'' else []) @ ''>\<newline>'' @
     ''<head>\<newline>'' @
     ''  <meta charset="UTF-8">\<newline>'' @
     ''  <meta name="viewport" content="width=device-width, initial-scale=1.0">\<newline>'' @
     ''  <title>'' @ title (meta plan) @ ''</title>\<newline>'' @
     ''  <meta name="description" content="'' @ description (meta plan) @ ''">\<newline>'' @
     ''  <link rel="stylesheet" href="styles.css">\<newline>'' @
     ''</head>\<newline>'' @
     ''<body>\<newline>'' @
     ''  <main>\<newline>'' @
     sections @ ''\<newline>'' @
     ''  </main>\<newline>'' @
     ''  <script src="main.js"></script>\<newline>'' @
     ''</body>\<newline>'' @
     ''</html>'')))\<close>

subsection \<open>\<^verbatim>\<open>renderCss\<close> and \<^verbatim>\<open>renderJs\<close>\<close>

definition renderCss :: "SitePlan \<Rightarrow> string" where
  \<open>renderCss plan =
     (let colors = colors (style plan);
          font = str_or (font (style plan)) ''system-ui, -apple-system, sans-serif''
      in
     ''* {\<newline>'' @
     ''  margin: 0;\<newline>'' @
     ''  padding: 0;\<newline>'' @
     ''  box-sizing: border-box;\<newline>'' @
     ''}\<newline>'' @
     ''\<newline>'' @
     ''body {\<newline>'' @
     ''  font-family: '' @ font @ '';\<newline>'' @
     ''  color: '' @ str_or (lookup colors ''text'') ''#333'' @ '';\<newline>'' @
     ''  background: '' @ str_or (lookup colors ''background'') ''#fff'' @ '';\<newline>'' @
     ''  line-height: 1.6;\<newline>'' @
     ''}\<newline>'' @
     ''\<newline>'' @
     ''main {\<newline>'' @
     ''  max-width: 1200px;\<newline>'' @
     ''  margin: 0 auto;\<newline>'' @
     ''  padding: 20px;\<newline>'' @
     ''}\<newline>'' @
     ''\<newline>'' @
     ''section {\<newline>'' @
     ''  margin: 40px 0;\<newline>'' @
     ''  padding: 20px;\<newline>'' @
     ''}\<newline>'' @
     ''\<newline>'' @
     ''.hero {\<newline>'' @
     ''  text-align: center;\<newline>'' @
     ''  padding: 60px 20px;\<newline>'' @
     ''  background: '' @ str_or (lookup colors ''primary'') ''#007bff'' @ '';\<newline>'' @
     ''  color: white;\<newline>'' @
     ''  border-radius: 8px;\<newline>'' @
     ''}\<newline>'' @
     ''\<newline>'' @
     ''.hero h1 {\<newline>'' @
     ''  font-size: 2.5em;\<newline>'' @
     ''  margin-bottom: 20px;\<newline>'' @
     ''}\<newline>'' @
     ''\<newline>'' @
     ''.cta-button {\<newline>'' @
     ''  background: white;\<newline>'' @
     ''  color: '' @ str_or (lookup colors ''primary'') ''#007bff'' @ '';\<newline>'' @
     ''  padding: 12px 30px;\<newline>'' @
     ''  border: none;\<newline>'' @
     ''  border-radius: 5px;\<newline>'' @
     ''  font-size: 1.1em;\<newline>'' @
     ''  cursor: pointer;\<newline>'' @
     ''  margin-top: 20px;\<newline>'' @
     ''}\<newline>'' @
     ''\<newline>'' @
     ''.features-grid {\<newline>'' @
     ''  display: grid;\<newline>'' @
     ''  grid-template-columns: repeat(auto-fit, minmax(250px, 1fr));\<newline>'' @
     ''  gap: 30px;\<newline>'' @
     ''  margin-top: 30px;\<newline>'' @
     ''}\<newline>'' @
     ''\<newline>'' @
     ''.feature-item {\<newline>'' @
     ''  padding: 20px;\<newline>'' @
     ''  background: '' @ str_or (lookup colors ''secondary'') ''#f8f9fa'' @ '';\<newline>'' @
     ''  border-radius: 8px;\<newline>'' @
     ''}\<newline>'' @
     ''\<newline>'' @
     ''.contact {\<newline>'' @
     ''  background: '' @ str_or (lookup colors ''secondary'') ''#f8f9fa'' @ '';\<newline>'' @
     ''  padding: 40px;\<newline>'' @
     ''  border-radius: 8px;\<newline>'' @
     ''}'')\<close>

definition renderJs :: "SitePlan \<Rightarrow> string" where
  \<open>renderJs plan =
     ''// Site initialization\<newline>'' @
     ''document.addEventListener('DOMContentLoaded', function() {\<newline>'' @
     ''  console.log('Site loaded: '' @ title (meta plan) @ ''');\<newline>'' @
     ''  \<newline>'' @
     ''  // Add smooth scrolling\<newline>'' @
     ''  document.querySelectorAll('a[href^="#"]').forEach(anchor => {\<newline>'' @
     ''    anchor.addEventListener('click', function (e) {\<newline>'' @
     ''      e.preventDefault();\<newline>'' @
     ''      const target = document.querySelector(this.getAttribute('href'));\<newline>'' @
     ''      if (target) {\<newline>'' @
     ''        target.scrollIntoView({ behavior: 'smooth' });\<newline>'' @
     ''      }\<newline>'' @
     ''    });\<newline>'' @
     ''  });\<newline>'' @
     ''});''\<close>

subsection \<open>\<^verbatim>\<open>renderReactApp\<close>\<close>

text \<open>\<^verbatim>\<open>section.props.items || []\<close>, as a value.\<close>

definition items_or_empty :: "json option \<Rightarrow> json" where
  "items_or_empty v = (case v of Some x \<Rightarrow> if truthy v then x else JArr [] | None \<Rightarrow> JArr [])"

definition renderReactApp_section :: "Section \<Rightarrow> string result" where
  \<open>renderReactApp_section section =
     (if type_section section = ''hero'' then
        bind (or_else (lookup (props section) ''title'') ''Welcome'') (\<lambda>title.
        bind (or_else (lookup (props section) ''subtitle'') []) (\<lambda>subtitle.
        bind (if truthy (lookup (props section) ''cta'')
              then bind (interpolate (lookup (props section) ''cta''))
                     (\<lambda>cta. Inr (''<button className="cta-button">'' @ cta @ ''</button>''))
              else Inr []) (\<lambda>cta.
        Inr (''\<newline>'' @
     ''  const Hero = () => (\<newline>'' @
     ''    <section className="hero">\<newline>'' @
     ''      <h1>'' @ title @ ''</h1>\<newline>'' @
     ''      <p>'' @ subtitle @ ''</p>\<newline>'' @
     ''      '' @ cta @ ''\<newline>'' @
     ''    </section>\<newline>'' @
     ''  );''))))
      else if type_section section = ''features'' then
        bind (or_else (lookup (props section) ''title'') ''Features'') (\<lambda>title.
        Inr (''\<newline>'' @
     ''  const Features = () => (\<newline>'' @
     ''    <section className="features">\<newline>'' @
     ''      <h2>'' @ title @ ''</h2>\<newline>'' @
     ''      <div className="features-grid">\<newline>'' @
     ''        '' @ stringify (items_or_empty (lookup (props section) ''items'')) @ ''\<newline>'' @
     ''      </div>\<newline>'' @
     ''    </section>\<newline>'' @
     ''  );''))
      else Inr [])\<close>

text \<open>\<^verbatim>\<open>.filter(Boolean)\<close> on strings keeps the non-empty ones.\<close>

definition renderReactApp :: "SitePlan \<Rightarrow> string result" where
  \<open>renderReactApp plan =
     bind (map_result renderReactApp_section (sections plan)) (\<lambda>rendered.
     let sections = join ''\<newline>'' (filter (\<lambda>s. s \<noteq> []) rendered) in
     Inr (''import React from 'react';\<newline>'' @
     ''import './App.css';\<newline>'' @
     ''\<newline>'' @
     ''function App() {\<newline>'' @
     ''  '' @ sections @ ''\<newline>'' @
     ''\<newline>'' @
     ''  return (\<newline>'' @
     ''    <div className="App">\<newline>'' @
     ''      <Hero />\<newline>'' @
     ''      <Features />\<newline>'' @
     ''    </div>\<newline>'' @
     ''  );\<newline>'' @
     ''}\<newline>'' @
     ''\<newline>'' @
     ''export default App;''))\<close>

subsection \<open>The Next.js files\<close>

text \<open>\<^verbatim>\<open>${section.props.title || section.type}\<close>.\<close>

definition renderNextPage_section :: "Section \<Rightarrow> string result" where
  \<open>renderNextPage_section section =
     bind (or_else (lookup (props section) ''title'') (type_section section)) (\<lambda>heading.
     Inr (''\<newline>'' @
     ''        <section className="mb-12">\<newline>'' @
     ''          <h2 className="text-2xl font-semibold mb-4">'' @ heading @ ''</h2>\<newline>'' @
     ''          <pre className="bg-gray-100 p-4 rounded">'' @ stringify2 (JObj (props section)) @ ''</pre>\<newline>'' @
     ''        </section>''))\<close>

definition renderNextPage :: "SitePlan \<Rightarrow> string result" where
  \<open>renderNextPage plan =
     bind (map_result renderNextPage_section (sections plan)) (\<lambda>rendered.
     Inr (''export default function Home() {\<newline>'' @
     ''  return (\<newline>'' @
     ''    <main className="flex min-h-screen flex-col items-center justify-between p-24">\<newline>'' @
     ''      <div className="z-10 w-full max-w-5xl items-center justify-between font-mono text-sm">\<newline>'' @
     ''        <h1 className="text-4xl font-bold mb-8">'' @ title (meta plan) @ ''</h1>\<newline>'' @
     ''        <p className="text-xl mb-8">'' @ description (meta plan) @ ''</p>\<newline>'' @
     ''        '' @ join [] rendered @ ''\<newline>'' @
     ''      </div>\<newline>'' @
     ''    </main>\<newline>'' @
     ''  );\<newline>'' @
     ''}''))\<close>

definition baseLayout :: "SitePlan \<Rightarrow> string" where
  \<open>baseLayout plan =
     ''import type { Metadata } from 'next'\<newline>'' @
     ''import './globals.css'\<newline>'' @
     ''\<newline>'' @
     ''export const metadata: Metadata = {\<newline>'' @
     ''  title: '' @ [CHR 0x27] @ title (meta plan) @ ''',\<newline>'' @
     ''  description: '' @ [CHR 0x27] @ description (meta plan) @ ''',\<newline>'' @
     ''}\<newline>'' @
     ''\<newline>'' @
     ''export default function RootLayout({\<newline>'' @
     ''  children,\<newline>'' @
     ''}: {\<newline>'' @
     ''  children: React.ReactNode\<newline>'' @
     ''}) {\<newline>'' @
     ''  return (\<newline>'' @
     ''    <html lang="'' @ language (meta plan) @ ''" '' @ (if language (meta plan) = ''fa'' then ''dir="rtl"'' else []) @ ''>\<newline>'' @
     ''      <body>{children}</body>\<newline>'' @
     ''    </html>\<newline>'' @
     ''  )\<newline>'' @
     ''}''\<close>

definition tailwindBase :: string where
  \<open>tailwindBase =
     ''@tailwind base;\<newline>'' @
     ''@tailwind components;\<newline>'' @
     ''@tailwind utilities;''\<close>

text \<open>The colour record as the object it is: every value a string.\<close>

definition colors_json :: "(string \<times> string) list \<Rightarrow> json" where
  "colors_json cs = JObj (map (\<lambda>(k, v). (k, JStr v)) cs)"

definition tailwindConfig :: "SitePlan \<Rightarrow> string" where
  \<open>tailwindConfig plan =
     ''import type { Config } from 'tailwindcss'\<newline>'' @
     ''\<newline>'' @
     ''const config: Config = {\<newline>'' @
     ''  content: [\<newline>'' @
     ''    './pages/**/*.{js,ts,jsx,tsx,mdx}',\<newline>'' @
     ''    './components/**/*.{js,ts,jsx,tsx,mdx}',\<newline>'' @
     ''    './app/**/*.{js,ts,jsx,tsx,mdx}',\<newline>'' @
     ''  ],\<newline>'' @
     ''  theme: {\<newline>'' @
     ''    extend: {\<newline>'' @
     ''      colors: '' @ stringify2 (colors_json (colors (style plan))) @ ''\<newline>'' @
     ''    },\<newline>'' @
     ''  },\<newline>'' @
     ''  plugins: [],\<newline>'' @
     ''}\<newline>'' @
     ''export default config''\<close>

definition basicPkgJson :: "string \<Rightarrow> string" where
  \<open>basicPkgJson framework =
     (let deps =
        (if framework = ''react''
         then JObj [(''react'', JStr ''^18.0.0''),
                    (''react-dom'', JStr ''^18.0.0''),
                    (''react-scripts'', JStr ''5.0.1'')]
         else JObj [(''next'', JStr ''^14.0.0''),
                    (''react'', JStr ''^18.0.0''),
                    (''react-dom'', JStr ''^18.0.0'')])
      in stringify2 (JObj [
        (''name'', JStr ''generated-site''),
        (''version'', JStr ''1.0.0''),
        (''private'', JBool True),
        (''scripts'',
           if framework = ''react''
           then JObj [(''start'', JStr ''react-scripts start''),
                      (''build'', JStr ''react-scripts build''),
                      (''test'', JStr ''react-scripts test''),
                      (''eject'', JStr ''react-scripts eject'')]
           else JObj [(''dev'', JStr ''next dev''),
                      (''build'', JStr ''next build''),
                      (''start'', JStr ''next start''),
                      (''lint'', JStr ''next lint'')]),
        (''dependencies'', deps)]))\<close>

subsection \<open>\<^verbatim>\<open>buildFilesFromPlan\<close>\<close>

definition buildFilesFromPlan :: "SitePlan \<Rightarrow> framework \<Rightarrow> GeneratedFiles result" where
  \<open>buildFilesFromPlan plan framework =
     (if framework = Vanilla then
        bind (renderHtml plan) (\<lambda>html.
        let css = renderCss plan; js = renderJs plan in
        Inr \<lparr>files = [
          \<lparr>path_file = ''index.html'', content = html\<rparr>,
          \<lparr>path_file = ''styles.css'', content = css\<rparr>,
          \<lparr>path_file = ''main.js'', content = js\<rparr>]\<rparr>)
      else if framework = React then
        (let pkg = basicPkgJson ''react'' in
         bind (renderReactApp plan) (\<lambda>app.
         Inr \<lparr>files = [
           \<lparr>path_file = ''package.json'', content = pkg\<rparr>,
           \<lparr>path_file = ''src/App.jsx'', content = app\<rparr>,
           \<lparr>path_file = ''src/main.jsx'', content =
     ''import React from 'react';\<newline>'' @
     ''import { createRoot } from 'react-dom/client';\<newline>'' @
     ''import App from './App';\<newline>'' @
     ''createRoot(document.getElementById('root')).render(<App/>);''\<rparr>,
           \<lparr>path_file = ''public/index.html'', content =
     ''<!DOCTYPE html>\<newline>'' @
     ''<html lang="'' @ language (meta plan) @ ''">\<newline>'' @
     ''<head>\<newline>'' @
     ''  <meta charset="utf-8" />\<newline>'' @
     ''  <meta name="viewport" content="width=device-width, initial-scale=1" />\<newline>'' @
     ''  <title>'' @ title (meta plan) @ ''</title>\<newline>'' @
     ''</head>\<newline>'' @
     ''<body>\<newline>'' @
     ''  <div id="root"></div>\<newline>'' @
     ''</body>\<newline>'' @
     ''</html>''\<rparr>,
           \<lparr>path_file = ''src/App.css'', content = renderCss plan\<rparr>]\<rparr>))
      else
        (let pkg = basicPkgJson ''next'' in
         bind (renderNextPage plan) (\<lambda>page.
         Inr \<lparr>files = [
           \<lparr>path_file = ''package.json'', content = pkg\<rparr>,
           \<lparr>path_file = ''app/page.tsx'', content = page\<rparr>,
           \<lparr>path_file = ''app/layout.tsx'', content = baseLayout plan\<rparr>,
           \<lparr>path_file = ''app/globals.css'', content = tailwindBase\<rparr>,
           \<lparr>path_file = ''tailwind.config.ts'', content = tailwindConfig plan\<rparr>]\<rparr>)))\<close>

section \<open>Request validation (\<^verbatim>\<open>BuildRequestSchema\<close> in \<^verbatim>\<open>lib/validation.ts\<close>)\<close>

text \<open>\<^verbatim>\<open>BuildRequest\<close>, the type inferred from the schema.\<close>

datatype section_kind = Hero | Features | Menu | Gallery | Pricing | Contact | Faq

datatype lang = Fa | En

datatype tone_kind = Formal | Casual | Playful

record Theme =
  primary :: string
  secondary :: "string option"
  font_theme :: "string option"
  dark :: "bool option"

record Brand =
  name :: "string option"
  tone :: "tone_kind option"

record BuildRequest =
  intent :: string
  framework_request :: framework
  theme :: Theme
  sections_request :: "section_kind list"
  language_request :: lang
  brand :: "Brand option"

text \<open>
  \<^verbatim>\<open>s.length\<close> counts UTF-16 code units. On the UTF-8 bytes of \<^verbatim>\<open>s\<close> that is one unit
  for every byte that starts a character, and one more when the character takes four
  bytes (a surrogate pair).
\<close>

definition js_length :: "string \<Rightarrow> nat" where
  "js_length s =
     length (filter (\<lambda>c. (of_char c :: nat) < 0x80 \<or> 0xC0 \<le> (of_char c :: nat)) s)
     + length (filter (\<lambda>c. 0xF0 \<le> (of_char c :: nat)) s)"

text \<open>
  A schema is run on the value found at a path (\<open>None\<close> when the key is absent) and gives
  the parsed value or the issues it raised. Of an issue the model keeps the code and the
  path. Issues are collected over all the keys of an object and all the elements of an
  array, in the order of the schema.
\<close>

type_synonym 'a parsed = "issue list + 'a"

type_synonym 'a schema = "path_part list \<Rightarrow> json option \<Rightarrow> 'a parsed"

fun ap :: "('a \<Rightarrow> 'b) parsed \<Rightarrow> 'a parsed \<Rightarrow> 'b parsed" where
  "ap (Inr f) (Inr x) = Inr (f x)"
| "ap (Inr f) (Inl is) = Inl is"
| "ap (Inl is) (Inr x) = Inl is"
| "ap (Inl is) (Inl js) = Inl (is @ js)"

definition z_string :: "string schema" where
  "z_string p v =
     (case v of Some (JStr s) \<Rightarrow> Inr s | _ \<Rightarrow> Inl [\<lparr>code = invalid_type, path = p\<rparr>])"

text \<open>\<^verbatim>\<open>z.string().min(lo).max(hi)\<close>: both checks run on a string.\<close>

definition z_string_min_max :: "nat \<Rightarrow> nat \<Rightarrow> string schema" where
  "z_string_min_max lo hi p v =
     (case z_string p v of
        Inl is \<Rightarrow> Inl is
      | Inr s \<Rightarrow>
          (let is = (if js_length s < lo then [\<lparr>code = too_small, path = p\<rparr>] else [])
                  @ (if hi < js_length s then [\<lparr>code = too_big, path = p\<rparr>] else [])
           in if is = [] then Inr s else Inl is))"

definition z_boolean :: "bool schema" where
  "z_boolean p v =
     (case v of Some (JBool b) \<Rightarrow> Inr b | _ \<Rightarrow> Inl [\<lparr>code = invalid_type, path = p\<rparr>])"

text \<open>\<^verbatim>\<open>z.enum([...])\<close>, the table giving the typed value of each literal.\<close>

definition z_enum :: "(string \<times> 'a) list \<Rightarrow> 'a schema" where
  "z_enum table p v =
     (case v of
        Some (JStr s) \<Rightarrow>
          (case lookup table s of
             Some a \<Rightarrow> Inr a
           | None \<Rightarrow> Inl [\<lparr>code = invalid_enum_value, path = p\<rparr>])
      | _ \<Rightarrow> Inl [\<lparr>code = invalid_type, path = p\<rparr>])"

text \<open>\<^verbatim>\<open>.optional()\<close> accepts \<^verbatim>\<open>undefined\<close> only: \<^verbatim>\<open>null\<close> goes to the inner schema.\<close>

definition z_optional :: "'a schema \<Rightarrow> 'a option schema" where
  "z_optional inner p v =
     (case v of None \<Rightarrow> Inr None | Some x \<Rightarrow> ap (Inr Some) (inner p v))"

fun z_elements :: "'a schema \<Rightarrow> path_part list \<Rightarrow> nat \<Rightarrow> json list \<Rightarrow> 'a list parsed" where
  "z_elements inner p i [] = Inr []"
| "z_elements inner p i (x # xs) =
     ap (ap (Inr (#)) (inner (p @ [Index i]) (Some x))) (z_elements inner p (Suc i) xs)"

text \<open>\<^verbatim>\<open>z.array(inner).min(n)\<close>: a short array raises its issue and the elements are still parsed.\<close>

definition z_array_min :: "'a schema \<Rightarrow> nat \<Rightarrow> 'a list schema" where
  "z_array_min inner n p v =
     (case v of
        Some (JArr xs) \<Rightarrow>
          ap (ap (Inr (\<lambda>u ys. ys))
                 (if length xs < n then Inl [\<lparr>code = too_small, path = p\<rparr>] else Inr ()))
             (z_elements inner p 0 xs)
      | _ \<Rightarrow> Inl [\<lparr>code = invalid_type, path = p\<rparr>])"

definition framework_table :: "(string \<times> framework) list" where
  "framework_table = [(''vanilla'', Vanilla), (''react'', React), (''next'', Next)]"

definition section_table :: "(string \<times> section_kind) list" where
  "section_table = [(''hero'', Hero), (''features'', Features), (''menu'', Menu),
     (''gallery'', Gallery), (''pricing'', Pricing), (''contact'', Contact), (''faq'', Faq)]"

definition language_table :: "(string \<times> lang) list" where
  "language_table = [(''fa'', Fa), (''en'', En)]"

definition tone_table :: "(string \<times> tone_kind) list" where
  "tone_table = [(''formal'', Formal), (''casual'', Casual), (''playful'', Playful)]"

text \<open>The three \<^verbatim>\<open>z.object\<close> schemas. A key the shape does not name is dropped.\<close>

definition theme_schema :: "Theme schema" where
  "theme_schema p v =
     (case v of
        Some (JObj kvs) \<Rightarrow>
          ap (ap (ap (ap (Inr (\<lambda>a b c d. \<lparr>primary = a, secondary = b, font_theme = c, dark = d\<rparr>))
            (z_string (p @ [Key ''primary'']) (lookup kvs ''primary'')))
            (z_optional z_string (p @ [Key ''secondary'']) (lookup kvs ''secondary'')))
            (z_optional z_string (p @ [Key ''font'']) (lookup kvs ''font'')))
            (z_optional z_boolean (p @ [Key ''dark'']) (lookup kvs ''dark''))
      | _ \<Rightarrow> Inl [\<lparr>code = invalid_type, path = p\<rparr>])"

definition brand_schema :: "Brand schema" where
  "brand_schema p v =
     (case v of
        Some (JObj kvs) \<Rightarrow>
          ap (ap (Inr (\<lambda>a b. \<lparr>name = a, tone = b\<rparr>))
            (z_optional z_string (p @ [Key ''name'']) (lookup kvs ''name'')))
            (z_optional (z_enum tone_table) (p @ [Key ''tone'']) (lookup kvs ''tone''))
      | _ \<Rightarrow> Inl [\<lparr>code = invalid_type, path = p\<rparr>])"

definition BuildRequestSchema :: "BuildRequest schema" where
  "BuildRequestSchema p v =
     (case v of
        Some (JObj kvs) \<Rightarrow>
          ap (ap (ap (ap (ap (ap
            (Inr (\<lambda>a b c d e f. \<lparr>intent = a, framework_request = b, theme = c,
                    sections_request = d, language_request = e, brand = f\<rparr>))
            (z_string_min_max 3 2000 (p @ [Key ''intent'']) (lookup kvs ''intent'')))
            (z_enum framework_table (p @ [Key ''framework'']) (lookup kvs ''framework'')))
            (theme_schema (p @ [Key ''theme'']) (lookup kvs ''theme'')))
            (z_array_min (z_enum section_table) 1 (p @ [Key ''sections'']) (lookup kvs ''sections'')))
            (z_enum language_table (p @ [Key ''language'']) (lookup kvs ''language'')))
            (z_optional brand_schema (p @ [Key ''brand'']) (lookup kvs ''brand''))
      | _ \<Rightarrow> Inl [\<lparr>code = invalid_type, path = p\<rparr>])"

text \<open>\<^verbatim>\<open>BuildRequestSchema.parse(body)\<close>: the issues are thrown as one \<^verbatim>\<open>ZodError\<close>.\<close>

definition parse :: "json \<Rightarrow> BuildRequest result" where
  "parse body =
     (case BuildRequestSchema [] (Some body) of
        Inl is \<Rightarrow> Inl (ZodError is)
      | Inr validatedData \<Rightarrow> Inr validatedData)"

section \<open>The AI client (\<^verbatim>\<open>lib/ai.ts\<close>) and the generate handler (\<^verbatim>\<open>app/api/generate/route.ts\<close>)\<close>

text \<open>
  What one call of the text-generation service comes to, as \<^verbatim>\<open>generateSitePlan\<close> sees it:
  the call rejects, the message has no content, the content is not JSON, or the content
  parses to a plan. The cast \<^verbatim>\<open>as SitePlan\<close> checks nothing; the model keeps to the
  replies that have the shape of the type.
\<close>

datatype completion = Rejected | NoContent | NotJson | Content SitePlan

text \<open>Every throw inside the \<^verbatim>\<open>try\<close> is caught and replaced by one fixed error.\<close>

definition generateSitePlan :: "(BuildRequest \<Rightarrow> completion) \<Rightarrow> BuildRequest \<Rightarrow> SitePlan result" where
  "generateSitePlan service req =
     (case service req of
        Content plan \<Rightarrow> Inr plan
      | _ \<Rightarrow> Inl (Error ''Failed to generate site plan''))"

text \<open>The JSON body of a response, member by member.\<close>

datatype member =
    PlanMember SitePlan
  | FilesMember GeneratedFiles
  | ErrorMember string
  | DetailsMember "issue list"

record Response =
  status :: nat
  json_body :: "(string \<times> member) list"

text \<open>The \<^verbatim>\<open>catch\<close> block: \<^verbatim>\<open>error.name === 'ZodError'\<close>, else \<^verbatim>\<open>error.message || '...'\<close>.\<close>

definition failure :: "string \<Rightarrow> Response" where
  "failure message =
     \<lparr>status = 500,
      json_body = [(''error'', ErrorMember (if message = [] then ''Failed to generate site'' else message))]\<rparr>"

fun catch :: "exn \<Rightarrow> Response" where
  "catch (ZodError is) =
     \<lparr>status = 400,
      json_body = [(''error'', ErrorMember ''Invalid request data''), (''details'', DetailsMember is)]\<rparr>"
| "catch (TypeError message) = failure message"
| "catch (SyntaxError message) = failure message"
| "catch (Error message) = failure message"

text \<open>
  \<open>POST service request_json\<close>, where \<open>request_json\<close> is what \<^verbatim>\<open>await req.json()\<close> comes
  to. The first component lists the requests handed to the service, in order.
\<close>

definition POST :: "(BuildRequest \<Rightarrow> completion) \<Rightarrow> json result \<Rightarrow> BuildRequest list \<times> Response" where
  "POST service request_json =
     (case request_json of
        Inl error \<Rightarrow> ([], catch error)
      | Inr body \<Rightarrow>
     (case parse body of
        Inl error \<Rightarrow> ([], catch error)
      | Inr validatedData \<Rightarrow>
     (case generateSitePlan service validatedData of
        Inl error \<Rightarrow> ([validatedData], catch error)
      | Inr plan \<Rightarrow>
     (case buildFilesFromPlan plan (framework_request validatedData) of
        Inl error \<Rightarrow> ([validatedData], catch error)
      | Inr generated \<Rightarrow>
          ([validatedData],
           \<lparr>status = 200,
            json_body = [(''plan'', PlanMember plan), (''files'', FilesMember generated)]\<rparr>)))))"

section \<open>What the specification says, for comparison with the code\<close>

text \<open>The fixed file list of each flavour (specification, 4.2).\<close>

fun flavor_paths :: "framework \<Rightarrow> string list" where
  "flavor_paths Vanilla = [''index.html'', ''styles.css'', ''main.js'']"
| "flavor_paths React =
     [''package.json'', ''src/App.jsx'', ''src/main.jsx'', ''public/index.html'', ''src/App.css'']"
| "flavor_paths Next =
     [''package.json'', ''app/page.tsx'', ''app/layout.tsx'', ''app/globals.css'',
      ''tailwind.config.ts'']"

text \<open>The four colours the style sheet reads, each with its fallback literal.\<close>

definition default_colors :: "(string \<times> string) list" where
  "default_colors =
     [(''text'', ''#333''), (''background'', ''#fff''),
      (''primary'', ''#007bff''), (''secondary'', ''#f8f9fa'')]"

definition with_default_colors :: "(string \<times> string) list \<Rightarrow> (string \<times> string) list" where
  "with_default_colors cs = map (\<lambda>(k, d). (k, str_or (lookup cs k) d)) default_colors"

text \<open>The content of the file at a path of a generator result, when it has one.\<close>

definition file_content :: "GeneratedFiles result \<Rightarrow> string \<Rightarrow> string option" where
  "file_content r p =
     (case r of
        Inl e \<Rightarrow> None
      | Inr gf \<Rightarrow> map_of (map (\<lambda>f. (path_file f, content f)) (files gf)) p)"

text \<open>
  Values on which no conversion of the generator throws: \<open>printable\<close> values convert to
  a string, \<open>mappable\<close> is what \<^verbatim>\<open>items\<close> may hold for the feature grid.
\<close>

fun printable :: "json \<Rightarrow> bool" where
  "printable (JArr xs) = list_all printable xs"
| "printable (JObj kvs) = (''toString'' \<notin> set (map fst kvs))"
| "printable v = True"

fun printable_member :: "json \<Rightarrow> string \<Rightarrow> bool" where
  "printable_member JNull k = False"
| "printable_member (JObj kvs) k = (case lookup kvs k of None \<Rightarrow> True | Some v \<Rightarrow> printable v)"
| "printable_member v k = True"

definition mappable :: "json option \<Rightarrow> bool" where
  "mappable v =
     (if truthy v then
        (case v of
           Some (JArr xs) \<Rightarrow>
             list_all (\<lambda>x. printable_member x ''title'' \<and> printable_member x ''description'') xs
         | _ \<Rightarrow> False)
      else True)"

definition printable_prop :: "Section \<Rightarrow> string \<Rightarrow> bool" where
  "printable_prop section k =
     (case lookup (props section) k of None \<Rightarrow> True | Some v \<Rightarrow> printable v)"

definition well_formed_section :: "Section \<Rightarrow> bool" where
  "well_formed_section section =
     (list_all (printable_prop section)
        [''title'', ''subtitle'', ''cta'', ''email'', ''phone'', ''address'']
      \<and> mappable (lookup (props section) ''items''))"

text \<open>The constraints of the specification (3) on the fields of a raw request.\<close>

definition optional_ok :: "(json \<Rightarrow> bool) \<Rightarrow> json option \<Rightarrow> bool" where
  "optional_ok ok v = (case v of None \<Rightarrow> True | Some x \<Rightarrow> ok x)"

fun is_string :: "json \<Rightarrow> bool" where
  "is_string (JStr s) = True"
| "is_string v = False"

fun is_boolean :: "json \<Rightarrow> bool" where
  "is_boolean (JBool b) = True"
| "is_boolean v = False"

fun one_of :: "string list \<Rightarrow> json \<Rightarrow> bool" where
  "one_of names (JStr s) = (s \<in> set names)"
| "one_of names v = False"

fun intent_ok :: "json \<Rightarrow> bool" where
  "intent_ok (JStr s) = (3 \<le> js_length s \<and> js_length s \<le> 2000)"
| "intent_ok v = False"

fun theme_ok :: "json \<Rightarrow> bool" where
  "theme_ok (JObj kvs) =
     (optional_ok is_string (lookup kvs ''primary'') \<and> lookup kvs ''primary'' \<noteq> None
      \<and> optional_ok is_string (lookup kvs ''secondary'')
      \<and> optional_ok is_string (lookup kvs ''font'')
      \<and> optional_ok is_boolean (lookup kvs ''dark''))"
| "theme_ok v = False"

fun sections_ok :: "json \<Rightarrow> bool" where
  "sections_ok (JArr xs) =
     (xs \<noteq> [] \<and> list_all (one_of [''hero'', ''features'', ''menu'', ''gallery'', ''pricing'',
                                   ''contact'', ''faq'']) xs)"
| "sections_ok v = False"

fun brand_ok :: "json \<Rightarrow> bool" where
  "brand_ok (JObj kvs) =
     (optional_ok is_string (lookup kvs ''name'')
      \<and> optional_ok (one_of [''formal'', ''casual'', ''playful'']) (lookup kvs ''tone''))"
| "brand_ok v = False"

text \<open>The top-level fields of a request object that break their constraint.\<close>

definition required_ok :: "(json \<Rightarrow> bool) \<Rightarrow> json option \<Rightarrow> bool" where
  "required_ok ok v = (case v of None \<Rightarrow> False | Some x \<Rightarrow> ok x)"

definition field_ok :: "(string \<times> json) list \<Rightarrow> string \<Rightarrow> bool" where
  "field_ok kvs f =
     (if f = ''intent'' then required_ok intent_ok (lookup kvs f)
      else if f = ''framework'' then required_ok (one_of [''vanilla'', ''react'', ''next'']) (lookup kvs f)
      else if f = ''theme'' then required_ok theme_ok (lookup kvs f)
      else if f = ''sections'' then required_ok sections_ok (lookup kvs f)
      else if f = ''language'' then required_ok (one_of [''fa'', ''en'']) (lookup kvs f)
      else if f = ''brand'' then optional_ok brand_ok (lookup kvs f)
      else True)"

definition request_fields :: "string list" where
  "request_fields = [''intent'', ''framework'', ''theme'', ''sections'', ''language'', ''brand'']"

definition violated_fields :: "(string \<times> json) list \<Rightarrow> string list" where
  "violated_fields kvs = filter (\<lambda>f. \<not> field_ok kvs f) request_fields"

text \<open>The top-level fields that the issues of a validation failure name.\<close>

fun named_field :: "issue \<Rightarrow> string list" where
  "named_field i = (case path i of Key f # rest \<Rightarrow> [f] | _ \<Rightarrow> [])"

definition named_fields :: "issue list \<Rightarrow> string list" where
  "named_fields is = concat (map named_field is)"

text \<open>A typed request that meets the constraints: the enumerations hold by its type.\<close>

definition valid_request :: "BuildRequest \<Rightarrow> bool" where
  "valid_request r =
     (3 \<le> js_length (intent r) \<and> js_length (intent r) \<le> 2000 \<and> sections_request r \<noteq> [])"

text \<open>A typed request as the object that the client sends: an absent option is no key.\<close>

fun framework_name :: "framework \<Rightarrow> string" where
  "framework_name Vanilla = ''vanilla''"
| "framework_name React = ''react''"
| "framework_name Next = ''next''"

fun section_name :: "section_kind \<Rightarrow> string" where
  "section_name Hero = ''hero''"
| "section_name Features = ''features''"
| "section_name Menu = ''menu''"
| "section_name Gallery = ''gallery''"
| "section_name Pricing = ''pricing''"
| "section_name Contact = ''contact''"
| "section_name Faq = ''faq''"

fun language_name :: "lang \<Rightarrow> string" where
  "language_name Fa = ''fa''"
| "language_name En = ''en''"

fun tone_name :: "tone_kind \<Rightarrow> string" where
  "tone_name Formal = ''formal''"
| "tone_name Casual = ''casual''"
| "tone_name Playful = ''playful''"

definition optional_member :: "string \<Rightarrow> ('a \<Rightarrow> json) \<Rightarrow> 'a option \<Rightarrow> (string \<times> json) list" where
  "optional_member k enc v = (case v of None \<Rightarrow> [] | Some x \<Rightarrow> [(k, enc x)])"

definition theme_json :: "Theme \<Rightarrow> json" where
  "theme_json t =
     JObj ([(''primary'', JStr (primary t))]
           @ optional_member ''secondary'' JStr (secondary t)
           @ optional_member ''font'' JStr (font_theme t)
           @ optional_member ''dark'' JBool (dark t))"

definition brand_json :: "Brand \<Rightarrow> json" where
  "brand_json b =
     JObj (optional_member ''name'' JStr (name b)
           @ optional_member ''tone'' (\<lambda>t. JStr (tone_name t)) (tone b))"

definition json_of_request :: "BuildRequest \<Rightarrow> json" where
  "json_of_request r =
     JObj ([(''intent'', JStr (intent r)),
            (''framework'', JStr (framework_name (framework_request r))),
            (''theme'', theme_json (theme r)),
            (''sections'', JArr (map (\<lambda>s. JStr (section_name s)) (sections_request r))),
            (''language'', JStr (language_name (language_request r)))]
           @ optional_member ''brand'' brand_json (brand r))"

section \<open>Example inputs\<close>

text \<open>A plan with one section of a type the generator has no case for.\<close>

definition gallery_section :: Section where
  "gallery_section =
     \<lparr>id_section = ''gallery-1'', type_section = ''gallery'', props = [(''columns'', JNum ''3'')]\<rparr>"

definition gallery_plan :: SitePlan where
  "gallery_plan =
     \<lparr>meta = \<lparr>title = ''Studio'', description = ''A photo studio'', language = ''en''\<rparr>,
      assets = \<lparr>images = []\<rparr>,
      sections = [gallery_section],
      style = \<lparr>colors = [], font = None\<rparr>\<rparr>"

text \<open>A plan whose feature list holds a \<^verbatim>\<open>null\<close>: \<^verbatim>\<open>{"items": [null]}\<close>.\<close>

definition null_item_plan :: SitePlan where
  "null_item_plan =
     \<lparr>meta = \<lparr>title = ''Shop'', description = ''A shop'', language = ''en''\<rparr>,
      assets = \<lparr>images = []\<rparr>,
      sections = [\<lparr>id_section = ''features-1'', type_section = ''features'',
                   props = [(''items'', JArr [JNull])]\<rparr>],
      style = \<lparr>colors = [], font = None\<rparr>\<rparr>"

text \<open>A Persian plan.\<close>

definition persian_plan :: SitePlan where
  "persian_plan =
     \<lparr>meta = \<lparr>title = ''Nanvayi'', description = ''Nan-e taze'', language = ''fa''\<rparr>,
      assets = \<lparr>images = []\<rparr>,
      sections = [\<lparr>id_section = ''hero-1'', type_section = ''hero'',
                   props = [(''title'', JStr ''Salam'')]\<rparr>],
      style = \<lparr>colors = [(''primary'', ''#7c3aed'')], font = None\<rparr>\<rparr>"

text \<open>The same plan as \<open>gallery_plan\<close> with one image added.\<close>

definition gallery_plan_with_image :: SitePlan where
  "gallery_plan_with_image =
     gallery_plan\<lparr>assets :=
       \<lparr>images = [\<lparr>id_image = ''img-1'', prompt = Some ''a studio'', url = None\<rparr>]\<rparr>\<rparr>"

text \<open>A plan with no colours at all.\<close>

definition bare_plan :: SitePlan where
  "bare_plan =
     \<lparr>meta = \<lparr>title = ''Bakery'', description = ''Fresh bread'', language = ''en''\<rparr>,
      assets = \<lparr>images = []\<rparr>,
      sections = [\<lparr>id_section = ''hero-1'', type_section = ''hero'',
                   props = [(''title'', JStr ''Welcome Bakery'')]\<rparr>],
      style = \<lparr>colors = [], font = None\<rparr>\<rparr>"

text \<open>A request that meets every constraint, and the fields of one with no sections.\<close>

definition bakery_request :: BuildRequest where
  "bakery_request =
     \<lparr>intent = ''A bakery site'', framework_request = Vanilla,
      theme = \<lparr>primary = ''#000000'', secondary = None, font_theme = Some ''Vazirmatn'',
               dark = Some False\<rparr>,
      sections_request = [Hero], language_request = En,
      brand = Some \<lparr>name = None, tone = Some Casual\<rparr>\<rparr>"

definition empty_sections_fields :: "(string \<times> json) list" where
  "empty_sections_fields =
     [(''intent'', JStr ''A bakery site''), (''framework'', JStr ''vanilla''),
      (''theme'', JObj [(''primary'', JStr ''#000000'')]),
      (''sections'', JArr []), (''language'', JStr ''en'')]"

text \<open>A service that answers with no content, and one that answers with \<open>null_item_plan\<close>.\<close>

definition silent_service :: "BuildRequest \<Rightarrow> completion" where
  "silent_service req = NoContent"

definition null_item_service :: "BuildRequest \<Rightarrow> completion" where
  "null_item_service req = Content null_item_plan"

section \<open>Notions used in the proofs\<close>

text \<open>The issues of a result, and a result whose issues all lie at or below a path.\<close>

definition issues_of :: "'a parsed \<Rightarrow> issue list" where
  "issues_of r = (case r of Inl issues \<Rightarrow> issues | Inr x \<Rightarrow> [])"

definition below :: "path_part list \<Rightarrow> 'a parsed \<Rightarrow> bool" where
  "below p r =
     (case r of
        Inl issues \<Rightarrow> issues \<noteq> [] \<and> list_all (\<lambda>i. prefix p (path i)) issues
      | Inr x \<Rightarrow> True)"

text \<open>What the generator throws: a \<^verbatim>\<open>TypeError\<close> with a message.\<close>

definition thrown :: "exn \<Rightarrow> bool" where
  "thrown e = (case e of TypeError m \<Rightarrow> m \<noteq> [] | _ \<Rightarrow> False)"

section \<open>Auxiliary facts\<close>

lemma bind_Inr [simp]: "bind (Inr x) f = f x"
  by (simp add: bind_def)

lemma bind_Inl [simp]: "bind (Inl e) f = Inl e"
  by (simp add: bind_def)

lemma bind_eq_Inr: "bind m f = Inr y \<longleftrightarrow> (\<exists>x. m = Inr x \<and> f x = Inr y)"
  by (cases m) simp_all



lemma sublist_after: "sublist y r \<Longrightarrow> sublist y (a @ r)"
  unfolding sublist_def by (metis append.assoc)






subsection \<open>Where a rendered section ends up\<close>





subsection \<open>What the React flavour leaves out\<close>




lemma ToString_printable:
  "printable v \<Longrightarrow> \<exists>s. ToString v = Inr s"
  "list_all printable xs \<Longrightarrow> \<exists>ss. join_elements xs = Inr ss"
proof (induction v and xs rule: ToString_join_elements.induct)
  case (5 xs)
  then show ?case by auto
next
  case (8 x xs)
  then show ?case by (cases "x = JNull") auto
qed auto

lemma interpolate_printable:
  "(case v of None \<Rightarrow> True | Some x \<Rightarrow> printable x) \<Longrightarrow> \<exists>s. interpolate v = Inr s"
  by (cases v) (auto dest: ToString_printable(1))

lemma or_else_printable:
  "printable_prop section k \<Longrightarrow> \<exists>s. or_else (lookup (props section) k) d = Inr s"
  unfolding printable_prop_def or_else_def by (auto dest: interpolate_printable)

lemma interpolate_prop:
  "printable_prop section k \<Longrightarrow> \<exists>s. interpolate (lookup (props section) k) = Inr s"
  unfolding printable_prop_def by (rule interpolate_printable)

lemma map_result_total:
  "(\<And>x. x \<in> set xs \<Longrightarrow> \<exists>y. f x = Inr y) \<Longrightarrow> \<exists>ys. map_result f xs = Inr ys"
proof (induction xs)
  case Nil
  then show ?case by simp
next
  case (Cons a xs)
  then obtain b bs where "f a = Inr b" "map_result f xs = Inr bs"
    by (metis list.set_intros(1,2))
  then show ?case by simp
qed

lemma get_printable:
  "printable_member item k \<Longrightarrow> \<exists>s. bind (get item k) interpolate = Inr s"
  by (cases item) (auto split: option.splits dest: ToString_printable(1))

lemma renderHtml_item_total:
  assumes "printable_member item ''title''" "printable_member item ''description''"
  shows "\<exists>s. renderHtml_item item = Inr s"
proof -
  from get_printable [OF assms(1)] obtain t s where "get item ''title'' = Inr t" "interpolate t = Inr s"
    by (auto simp: bind_eq_Inr)
  moreover from get_printable [OF assms(2)] obtain d s' where "get item ''description'' = Inr d" "interpolate d = Inr s'"
    by (auto simp: bind_eq_Inr)
  ultimately show ?thesis by (simp add: renderHtml_item_def)
qed

lemma renderHtml_items_total:
  assumes "mappable v"
  shows "\<exists>s. renderHtml_items v = Inr s"
proof (cases "truthy v")
  case False
  then show ?thesis by (simp add: renderHtml_items_def)
next
  case True
  with assms obtain xs where v: "v = Some (JArr xs)"
    and xs: "list_all (\<lambda>x. printable_member x ''title'' \<and> printable_member x ''description'') xs"
    by (auto simp: mappable_def split: option.splits json.splits)
  have "\<exists>ys. map_result renderHtml_item xs = Inr ys"
    using xs by (intro map_result_total renderHtml_item_total) (auto simp: list_all_iff)
  with v show ?thesis by (auto simp: renderHtml_items_def)
qed

lemma well_formed_sectionD:
  assumes "well_formed_section section"
  shows "printable_prop section ''title''" "printable_prop section ''subtitle''"
    "printable_prop section ''cta''" "printable_prop section ''email''"
    "printable_prop section ''phone''" "printable_prop section ''address''"
    "mappable (lookup (props section) ''items'')"
  using assms by (simp_all add: well_formed_section_def)

lemma renderHtml_section_total:
  assumes "well_formed_section section"
  shows "\<exists>s. renderHtml_section section = Inr s"
proof -
  note wf = well_formed_sectionD [OF assms]
  obtain t1 where t1: "or_else (lookup (props section) ''title'') ''Welcome'' = Inr t1"
    using or_else_printable [OF wf(1)] by blast
  obtain t2 where t2: "or_else (lookup (props section) ''title'') ''Features'' = Inr t2"
    using or_else_printable [OF wf(1)] by blast
  obtain t3 where t3: "or_else (lookup (props section) ''title'') ''Contact'' = Inr t3"
    using or_else_printable [OF wf(1)] by blast
  obtain su where su: "or_else (lookup (props section) ''subtitle'') [] = Inr su"
    using or_else_printable [OF wf(2)] by blast
  obtain ct where ct: "interpolate (lookup (props section) ''cta'') = Inr ct"
    using interpolate_prop [OF wf(3)] by blast
  obtain em where em: "or_else (lookup (props section) ''email'') [] = Inr em"
    using or_else_printable [OF wf(4)] by blast
  obtain ph where ph: "or_else (lookup (props section) ''phone'') [] = Inr ph"
    using or_else_printable [OF wf(5)] by blast
  obtain ad where ad: "or_else (lookup (props section) ''address'') [] = Inr ad"
    using or_else_printable [OF wf(6)] by blast
  obtain it where it: "renderHtml_items (lookup (props section) ''items'') = Inr it"
    using renderHtml_items_total [OF wf(7)] by blast
  show ?thesis
    by (simp add: renderHtml_section_def t1 t2 t3 su ct em ph ad it)
qed

lemma renderReactApp_section_total:
  assumes "well_formed_section section"
  shows "\<exists>s. renderReactApp_section section = Inr s"
proof -
  note wf = well_formed_sectionD [OF assms]
  obtain t1 where t1: "or_else (lookup (props section) ''title'') ''Welcome'' = Inr t1"
    using or_else_printable [OF wf(1)] by blast
  obtain t2 where t2: "or_else (lookup (props section) ''title'') ''Features'' = Inr t2"
    using or_else_printable [OF wf(1)] by blast
  obtain su where su: "or_else (lookup (props section) ''subtitle'') [] = Inr su"
    using or_else_printable [OF wf(2)] by blast
  obtain ct where ct: "interpolate (lookup (props section) ''cta'') = Inr ct"
    using interpolate_prop [OF wf(3)] by blast
  show ?thesis
    by (simp add: renderReactApp_section_def t1 t2 su ct)
qed

lemma renderNextPage_section_total:
  assumes "well_formed_section section"
  shows "\<exists>s. renderNextPage_section section = Inr s"
proof -
  note wf = well_formed_sectionD [OF assms]
  obtain t1 where t1: "or_else (lookup (props section) ''title'') (type_section section) = Inr t1"
    using or_else_printable [OF wf(1)] by blast
  show ?thesis
    by (simp add: renderNextPage_section_def t1)
qed

lemma generate_total:
  assumes "list_all well_formed_section (sections plan)"
  shows "\<exists>gf. buildFilesFromPlan plan framework = Inr gf"
proof (cases framework)
  case Vanilla
  from assms obtain r where "map_result renderHtml_section (sections plan) = Inr r"
    using map_result_total [of "sections plan" renderHtml_section] renderHtml_section_total
    by (auto simp: list_all_iff)
  with Vanilla show ?thesis by (simp add: buildFilesFromPlan_def renderHtml_def)
next
  case React
  from assms obtain r where "map_result renderReactApp_section (sections plan) = Inr r"
    using map_result_total [of "sections plan" renderReactApp_section] renderReactApp_section_total
    by (auto simp: list_all_iff)
  with React show ?thesis by (simp add: buildFilesFromPlan_def renderReactApp_def)
next
  case Next
  from assms obtain r where "map_result renderNextPage_section (sections plan) = Inr r"
    using map_result_total [of "sections plan" renderNextPage_section] renderNextPage_section_total
    by (auto simp: list_all_iff)
  with Next show ?thesis by (simp add: buildFilesFromPlan_def renderNextPage_def)
qed

lemma generate_paths:
  "buildFilesFromPlan plan framework = Inr gf \<Longrightarrow> map path_file (files gf) = flavor_paths framework"
  by (cases framework) (auto simp: buildFilesFromPlan_def bind_eq_Inr Let_def)

lemma str_or_idem: "str_or (Some (str_or v d)) d = str_or v d"
  by (simp add: str_or_def split: option.splits)

lemma renderCss_defaults:
  "renderCss plan
     = renderCss (plan\<lparr>style := (style plan)\<lparr>colors := with_default_colors (colors (style plan))\<rparr>\<rparr>)"
  by (simp add: renderCss_def Let_def with_default_colors_def default_colors_def lookup_def str_or_idem)

lemma tailwindConfig_colors:
  "sublist (''colors: '' @ stringify2 (colors_json (colors (style plan)))) (tailwindConfig plan)"
  apply (unfold tailwindConfig_def)
  apply (simp add: sublist_Cons_right)
  done


lemma file_content_styles:
  "file_content (buildFilesFromPlan plan Vanilla) ''styles.css'' = Some css
   \<Longrightarrow> css = renderCss plan"
  by (cases "renderHtml plan") (simp_all add: file_content_def buildFilesFromPlan_def Let_def)

lemma file_content_App_css:
  "file_content (buildFilesFromPlan plan React) ''src/App.css'' = Some css
   \<Longrightarrow> css = renderCss plan"
  by (cases "renderReactApp plan") (simp_all add: file_content_def buildFilesFromPlan_def Let_def)

lemma file_content_tailwind:
  "file_content (buildFilesFromPlan plan Next) ''tailwind.config.ts'' = Some cfg
   \<Longrightarrow> cfg = tailwindConfig plan"
  by (cases "renderNextPage plan") (simp_all add: file_content_def buildFilesFromPlan_def Let_def)

lemma bind_eq_Inl: "bind m f = Inl e \<longleftrightarrow> m = Inl e \<or> (\<exists>x. m = Inr x \<and> f x = Inl e)"
  by (cases m) simp_all

lemma map_result_Inl: "map_result f xs = Inl e \<Longrightarrow> \<exists>x \<in> set xs. f x = Inl e"
  by (induction xs) (auto simp: bind_eq_Inl)

lemma ToString_thrown:
  "ToString v = Inl e \<Longrightarrow> thrown e"
  "join_elements xs = Inl e \<Longrightarrow> thrown e"
  by (induction v and xs rule: ToString_join_elements.induct)
     (auto simp: bind_eq_Inl thrown_def split: if_splits)

lemma interpolate_thrown: "interpolate v = Inl e \<Longrightarrow> thrown e"
  by (cases v) (auto dest: ToString_thrown(1))

lemma or_else_thrown: "or_else v d = Inl e \<Longrightarrow> thrown e"
  by (auto simp: or_else_def dest: interpolate_thrown split: if_splits)

lemma get_thrown: "get item k = Inl e \<Longrightarrow> thrown e"
  by (cases item) (auto simp: thrown_def)

lemma renderHtml_item_thrown: "renderHtml_item item = Inl e \<Longrightarrow> thrown e"
  by (auto simp: renderHtml_item_def bind_eq_Inl dest: get_thrown interpolate_thrown)

lemma renderHtml_items_thrown: "renderHtml_items v = Inl e \<Longrightarrow> thrown e"
  by (auto simp: renderHtml_items_def bind_eq_Inl thrown_def [of "TypeError m" for m]
      dest!: map_result_Inl dest: renderHtml_item_thrown
      split: if_splits option.splits json.splits)

lemma renderHtml_section_thrown: "renderHtml_section section = Inl e \<Longrightarrow> thrown e"
  by (auto simp: renderHtml_section_def bind_eq_Inl
      dest: or_else_thrown interpolate_thrown renderHtml_items_thrown split: if_splits)

lemma renderReactApp_section_thrown: "renderReactApp_section section = Inl e \<Longrightarrow> thrown e"
  by (auto simp: renderReactApp_section_def bind_eq_Inl
      dest: or_else_thrown interpolate_thrown split: if_splits)

lemma renderNextPage_section_thrown: "renderNextPage_section section = Inl e \<Longrightarrow> thrown e"
  by (auto simp: renderNextPage_section_def bind_eq_Inl dest: or_else_thrown)

lemma generate_thrown: "buildFilesFromPlan plan framework = Inl e \<Longrightarrow> thrown e"
  by (cases framework)
     (auto simp: buildFilesFromPlan_def renderHtml_def renderReactApp_def renderNextPage_def
        bind_eq_Inl Let_def
        dest!: map_result_Inl
        dest: renderHtml_section_thrown renderReactApp_section_thrown renderNextPage_section_thrown)

lemma catch_thrown:
  "thrown e \<Longrightarrow> \<exists>m. e = TypeError m \<and> m \<noteq> []
     \<and> catch e = \<lparr>status = 500, json_body = [(''error'', ErrorMember m)]\<rparr>"
  by (cases e) (auto simp: thrown_def failure_def)

lemma issues_of_simps [simp]: "issues_of (Inl is) = is" "issues_of (Inr x) = []"
  by (simp_all add: issues_of_def)

lemma issues_of_ap [simp]: "issues_of (ap a b) = issues_of a @ issues_of b"
  by (cases a; cases b) simp_all

lemma isl_ap [simp]: "isl (ap a b) \<longleftrightarrow> isl a \<or> isl b"
  by (cases a; cases b) simp_all

lemma below_simps [simp]:
  "below p (Inr x)"
  "below p (Inl [\<lparr>code = c, path = p\<rparr>])"
  by (simp_all add: below_def)

lemma below_ap: "below p a \<Longrightarrow> below p b \<Longrightarrow> below p (ap a b)"
  by (cases a; cases b) (auto simp: below_def)

lemma below_mono: "below (p @ q) r \<Longrightarrow> below p r"
  by (cases r) (auto simp: below_def list_all_iff intro: append_prefixD)

lemma below_issues: "below p r \<Longrightarrow> isl r \<longleftrightarrow> issues_of r \<noteq> []"
  by (cases r) (auto simp: below_def)

subsection \<open>The leaf schemas\<close>

lemma z_string_below: "below p (z_string p v)"
  by (auto simp: z_string_def split: option.splits json.splits)

lemma z_string_ok: "isl (z_string p v) \<longleftrightarrow> \<not> required_ok is_string v"
  by (auto simp: z_string_def required_ok_def split: option.splits json.splits)

lemma z_string_min_max_below: "below p (z_string_min_max lo hi p v)"
  by (auto simp: z_string_min_max_def z_string_def Let_def below_def split: option.splits json.splits)

lemma intent_schema_ok: "isl (z_string_min_max 3 2000 p v) \<longleftrightarrow> \<not> required_ok intent_ok v"
  by (auto simp: z_string_min_max_def z_string_def Let_def required_ok_def
      split: option.splits json.splits)

lemma z_boolean_below: "below p (z_boolean p v)"
  by (auto simp: z_boolean_def split: option.splits json.splits)

lemma z_boolean_ok: "isl (z_boolean p v) \<longleftrightarrow> \<not> required_ok is_boolean v"
  by (auto simp: z_boolean_def required_ok_def split: option.splits json.splits)

lemma z_enum_below: "below p (z_enum table p v)"
  by (auto simp: z_enum_def split: option.splits json.splits)

lemma lookup_None_iff: "lookup table s = None \<longleftrightarrow> s \<notin> set (map fst table)"
  by (simp add: lookup_def map_of_eq_None_iff)

lemma z_enum_ok: "isl (z_enum table p v) \<longleftrightarrow> \<not> required_ok (one_of (map fst table)) v"
proof (cases v)
  case None
  then show ?thesis by (simp add: z_enum_def required_ok_def)
next
  case (Some x)
  show ?thesis
  proof (cases x)
    case (JStr s)
    with Some lookup_None_iff [of table s] show ?thesis
      by (cases "lookup table s") (simp_all add: z_enum_def required_ok_def)
  qed (simp_all add: Some z_enum_def required_ok_def)
qed

lemma z_optional_below: "(\<And>p v. below p (inner p v)) \<Longrightarrow> below p (z_optional inner p v)"
  by (auto simp: z_optional_def below_ap split: option.splits)

lemma z_optional_ok:
  "(\<And>p v. isl (inner p v) \<longleftrightarrow> \<not> required_ok ok v)
   \<Longrightarrow> isl (z_optional inner p v) \<longleftrightarrow> \<not> optional_ok ok v"
  by (auto simp: z_optional_def optional_ok_def required_ok_def split: option.splits)

subsection \<open>Arrays\<close>

lemma z_elements_below:
  "(\<And>p v. below p (inner p v)) \<Longrightarrow> below p (z_elements inner p i xs)"
proof (induction xs arbitrary: i)
  case Nil
  then show ?case by simp
next
  case (Cons x xs)
  have "below p (inner (p @ [Index i]) (Some x))"
    using Cons.prems by (rule below_mono)
  with Cons show ?case by (simp add: below_ap)
qed

lemma z_elements_ok:
  "(\<And>p v. isl (inner p v) \<longleftrightarrow> \<not> required_ok ok v)
   \<Longrightarrow> isl (z_elements inner p i xs) \<longleftrightarrow> \<not> list_all ok xs"
  by (induction xs arbitrary: i) (auto simp: required_ok_def)

lemma sections_schema_below: "below p (z_array_min (z_enum table) n p v)"
  by (auto simp: z_array_min_def z_elements_below z_enum_below below_ap
      split: option.splits json.splits)

lemma sections_schema_ok:
  "isl (z_array_min (z_enum section_table) 1 p v) \<longleftrightarrow> \<not> required_ok sections_ok v"
proof -
  have "isl (z_elements (z_enum section_table) p 0 xs) \<longleftrightarrow> \<not> list_all (one_of (map fst section_table)) xs" for xs
    by (rule z_elements_ok) (rule z_enum_ok)
  then show ?thesis
    by (auto simp: z_array_min_def required_ok_def section_table_def
        split: option.splits json.splits)
qed

subsection \<open>Objects\<close>

lemma theme_schema_below: "below p (theme_schema p v)"
proof -
  have 1: "below p (z_string (p @ [Key k]) x)" for k x
    by (rule below_mono) (rule z_string_below)
  have 2: "below p (z_optional z_string (p @ [Key k]) x)" for k x
    by (rule below_mono) (rule z_optional_below, rule z_string_below)
  have 3: "below p (z_optional z_boolean (p @ [Key k]) x)" for k x
    by (rule below_mono) (rule z_optional_below, rule z_boolean_below)
  show ?thesis
    by (simp add: theme_schema_def 1 2 3 below_ap split: option.splits json.splits)
qed

lemma theme_schema_ok: "isl (theme_schema p v) \<longleftrightarrow> \<not> required_ok theme_ok v"
  by (auto simp: theme_schema_def required_ok_def z_string_ok z_optional_ok [OF z_string_ok]
      z_optional_ok [OF z_boolean_ok] optional_ok_def split: option.splits json.splits)

lemma brand_schema_below: "below p (brand_schema p v)"
proof -
  have 1: "below p (z_optional z_string (p @ [Key k]) x)" for k x
    by (rule below_mono) (rule z_optional_below, rule z_string_below)
  have 2: "below p (z_optional (z_enum table) (p @ [Key k]) x)" for k x table
    by (rule below_mono) (rule z_optional_below, rule z_enum_below)
  show ?thesis
    by (simp add: brand_schema_def 1 2 below_ap split: option.splits json.splits)
qed

lemma brand_schema_ok: "isl (brand_schema p v) \<longleftrightarrow> \<not> required_ok brand_ok v"
  by (auto simp: brand_schema_def required_ok_def z_optional_ok [OF z_string_ok]
      z_optional_ok [OF z_enum_ok] tone_table_def split: option.splits json.splits)

lemma named_fields_append [simp]: "named_fields (xs @ ys) = named_fields xs @ named_fields ys"
  by (simp add: named_fields_def)

lemma named_fields_below:
  assumes "below [Key f] r"
  shows "set (named_fields (issues_of r)) = (if isl r then {f} else {})"
proof (cases r)
  case (Inl issues)
  with assms have ne: "issues \<noteq> []"
    and all: "\<And>i. i \<in> set issues \<Longrightarrow> prefix [Key f] (path i)"
    by (auto simp: below_def list_all_iff)
  have "named_field i = [f]" if "i \<in> set issues" for i
    using all [OF that] by (cases "path i") (auto simp: prefix_def)
  then have "set (named_fields issues) = (\<Union>i \<in> set issues. {f})"
    by (auto simp: named_fields_def)
  with ne Inl show ?thesis by (cases issues) auto
next
  case (Inr x)
  then show ?thesis by (simp add: named_fields_def)
qed

text \<open>The results of the six fields of a request object.\<close>

lemma schema_issues:
  "issues_of (BuildRequestSchema [] (Some (JObj kvs))) =
     issues_of (z_string_min_max 3 2000 [Key ''intent''] (lookup kvs ''intent''))
     @ issues_of (z_enum framework_table [Key ''framework''] (lookup kvs ''framework''))
     @ issues_of (theme_schema [Key ''theme''] (lookup kvs ''theme''))
     @ issues_of (z_array_min (z_enum section_table) 1 [Key ''sections''] (lookup kvs ''sections''))
     @ issues_of (z_enum language_table [Key ''language''] (lookup kvs ''language''))
     @ issues_of (z_optional brand_schema [Key ''brand''] (lookup kvs ''brand''))"
  by (simp add: BuildRequestSchema_def)

lemma schema_isl:
  "isl (BuildRequestSchema [] (Some (JObj kvs))) \<longleftrightarrow> violated_fields kvs \<noteq> []"
  by (simp add: BuildRequestSchema_def violated_fields_def request_fields_def field_ok_def
      intent_schema_ok z_enum_ok theme_schema_ok sections_schema_ok [unfolded One_nat_def]
      z_optional_ok [OF brand_schema_ok] framework_table_def language_table_def)

lemma schema_named_fields:
  "set (named_fields (issues_of (BuildRequestSchema [] (Some (JObj kvs))))) = set (violated_fields kvs)"
  by (simp add: schema_issues
      named_fields_below [OF z_string_min_max_below] named_fields_below [OF z_enum_below]
      named_fields_below [OF theme_schema_below] named_fields_below [OF sections_schema_below]
      named_fields_below [OF z_optional_below [of brand_schema, OF brand_schema_below]]
      violated_fields_def request_fields_def field_ok_def
      intent_schema_ok z_enum_ok theme_schema_ok sections_schema_ok [unfolded One_nat_def]
      z_optional_ok [OF brand_schema_ok] framework_table_def language_table_def)

lemma parse_failure:
  "parse body = Inl e \<longleftrightarrow>
     isl (BuildRequestSchema [] (Some body)) \<and> e = ZodError (issues_of (BuildRequestSchema [] (Some body)))"
  by (cases "BuildRequestSchema [] (Some body)") (auto simp: parse_def)

lemma parse_success:
  "parse body = Inr req \<longleftrightarrow> BuildRequestSchema [] (Some body) = Inr req"
  by (cases "BuildRequestSchema [] (Some body)") (auto simp: parse_def)

subsection \<open>Round trip\<close>

lemma lookup_simps:
  "lookup [] k = None"
  "lookup ((a, v) # kvs) k = (if k = a then Some v else lookup kvs k)"
  "lookup (xs @ ys) k = (case lookup xs k of None \<Rightarrow> lookup ys k | Some v \<Rightarrow> Some v)"
  by (auto simp: lookup_def map_add_def split: option.splits)

lemma optional_member_lookup:
  "lookup (optional_member a enc v) k = (if k = a then map_option enc v else None)"
  by (cases v) (simp_all add: optional_member_def lookup_simps)

lemma theme_round_trip: "theme_schema p (Some (theme_json t)) = Inr t"
  by (cases "secondary t"; cases "font_theme t"; cases "dark t")
     (simp_all add: theme_schema_def theme_json_def z_string_def z_optional_def z_boolean_def
        lookup_simps optional_member_lookup)

lemma tone_round_trip: "z_enum tone_table p (Some (JStr (tone_name t))) = Inr t"
  by (cases t) (simp_all add: z_enum_def tone_table_def lookup_simps)

lemma brand_round_trip: "brand_schema p (Some (brand_json b)) = Inr b"
  by (cases "name b"; cases "tone b")
     (simp_all add: brand_schema_def brand_json_def z_string_def z_optional_def tone_round_trip
        lookup_simps optional_member_lookup)

lemma section_round_trip: "z_enum section_table p (Some (JStr (section_name s))) = Inr s"
  by (cases s) (simp_all add: z_enum_def section_table_def lookup_simps)

lemma sections_round_trip:
  "z_elements (z_enum section_table) p i (map (\<lambda>s. JStr (section_name s)) xs) = Inr xs"
  by (induction xs arbitrary: i) (simp_all add: section_round_trip)

lemma framework_round_trip: "z_enum framework_table p (Some (JStr (framework_name f))) = Inr f"
  by (cases f) (simp_all add: z_enum_def framework_table_def lookup_simps)

lemma language_round_trip: "z_enum language_table p (Some (JStr (language_name l))) = Inr l"
  by (cases l) (simp_all add: z_enum_def language_table_def lookup_simps)

lemma intent_round_trip:
  "3 \<le> js_length s \<Longrightarrow> js_length s \<le> 2000 \<Longrightarrow> z_string_min_max 3 2000 p (Some (JStr s)) = Inr s"
  by (simp add: z_string_min_max_def z_string_def)

lemma parse_json_of_request:
  assumes "valid_request r"
  shows "parse (json_of_request r) = Inr r"
proof -
  from assms have "z_string_min_max 3 2000 [Key ''intent''] (Some (JStr (intent r))) = Inr (intent r)"
    by (simp add: valid_request_def intent_round_trip)
  moreover from assms
  have "z_array_min (z_enum section_table) 1 [Key ''sections'']
          (Some (JArr (map (\<lambda>s. JStr (section_name s)) (sections_request r)))) = Inr (sections_request r)"
    by (simp add: valid_request_def z_array_min_def sections_round_trip)
  ultimately have "BuildRequestSchema [] (Some (json_of_request r)) = Inr r"
    by (cases "brand r")
       (simp_all add: BuildRequestSchema_def json_of_request_def framework_round_trip
          theme_round_trip language_round_trip brand_round_trip z_optional_def
          lookup_simps optional_member_lookup)
  then show ?thesis by (simp add: parse_success)
qed

section \<open>The example inputs, evaluated\<close>

lemma null_item_plan_throws:
  "buildFilesFromPlan null_item_plan Vanilla
     = Inl (TypeError (''Cannot read properties of null (reading '' @ [CHR 0x27] @ ''title'' @ [CHR 0x27] @ '')''))"
  by (simp add: null_item_plan_def buildFilesFromPlan_def renderHtml_def renderHtml_section_def
        renderHtml_items_def renderHtml_item_def or_else_def lookup_def)

lemma js_length_bakery: "js_length ''A bakery site'' = 13"
  by code_simp

lemma valid_bakery_request: "valid_request bakery_request"
  by (simp add: valid_request_def bakery_request_def js_length_bakery)

lemma parse_bakery_request: "parse (json_of_request bakery_request) = Inr bakery_request"
  using valid_bakery_request by (rule parse_json_of_request)

lemma violated_empty_sections: "violated_fields empty_sections_fields = [''sections'']"
  by (simp add: violated_fields_def request_fields_def field_ok_def empty_sections_fields_def
      required_ok_def optional_ok_def js_length_bakery lookup_simps)

lemma parse_empty_sections:
  "parse (JObj empty_sections_fields) = Inl (ZodError [\<lparr>code = too_small, path = [Key ''sections'']\<rparr>])"
  by (simp add: parse_def BuildRequestSchema_def empty_sections_fields_def lookup_simps
      z_string_min_max_def z_string_def js_length_bakery z_enum_def framework_table_def
      language_table_def theme_schema_def z_optional_def z_array_min_def)

section \<open>The rendering of sections of an unknown type\<close>




section \<open>Totality of the generator\<close>

text \<open>
  C2 fails on the code. The plan \<open>null_item_plan\<close> has the shape of \<^verbatim>\<open>SitePlan\<close>, and
  the vanilla flavour throws on it: \<^verbatim>\<open>item.title\<close> is read of \<^verbatim>\<open>null\<close>. The React
  flavour, which prints \<^verbatim>\<open>items\<close> with \<^verbatim>\<open>JSON.stringify\<close>, yields its files on the same plan.
\<close>

theorem generator_throws_on_null_item:
  "buildFilesFromPlan null_item_plan Vanilla
     = Inl (TypeError (''Cannot read properties of null (reading '' @ [CHR 0x27] @ ''title'' @ [CHR 0x27] @ '')''))
   \<and> \<not> isl (buildFilesFromPlan null_item_plan React)"
proof
  show "buildFilesFromPlan null_item_plan Vanilla
     = Inl (TypeError (''Cannot read properties of null (reading '' @ [CHR 0x27] @ ''title'' @ [CHR 0x27] @ '')''))"
    by (rule null_item_plan_throws)
  show "\<not> isl (buildFilesFromPlan null_item_plan React)"
    by (simp add: null_item_plan_def buildFilesFromPlan_def renderReactApp_def
          renderReactApp_section_def or_else_def lookup_def)
qed

section \<open>The files of each flavour and the default colours\<close>

text \<open>
  The style sheet puts its fallback literal for every colour the plan leaves out: with no
  colours at all, the four declarations read \<^verbatim>\<open>#333\<close>, \<^verbatim>\<open>#fff\<close>, \<^verbatim>\<open>#007bff\<close> and
  \<^verbatim>\<open>#f8f9fa\<close>, whatever the font.
\<close>

lemma str_or_None: "str_or None d = d"
  by (simp add: str_or_def)

lemma renderCss_text_default:
  "colors (style plan) = [] \<Longrightarrow> sublist ''  color: #333;'' (renderCss plan)"
  apply (simp add: renderCss_def Let_def lookup_def str_or_None sublist_Cons_right)
  apply (rule disjI2)
  apply (rule sublist_after)
  apply (simp add: sublist_Cons_right)
  done

lemma renderCss_background_default:
  "colors (style plan) = [] \<Longrightarrow> sublist ''  background: #fff;'' (renderCss plan)"
  apply (simp add: renderCss_def Let_def lookup_def str_or_None sublist_Cons_right)
  apply (rule disjI2)
  apply (rule sublist_after)
  apply (simp add: sublist_Cons_right)
  done

lemma renderCss_primary_default:
  "colors (style plan) = [] \<Longrightarrow> sublist ''  background: #007bff;'' (renderCss plan)"
  apply (simp add: renderCss_def Let_def lookup_def str_or_None sublist_Cons_right)
  apply (rule disjI2)
  apply (rule sublist_after)
  apply (simp add: sublist_Cons_right)
  done

lemma renderCss_secondary_default:
  "colors (style plan) = [] \<Longrightarrow> sublist ''  background: #f8f9fa;'' (renderCss plan)"
  apply (simp add: renderCss_def Let_def lookup_def str_or_None sublist_Cons_right)
  apply (rule disjI2)
  apply (rule sublist_after)
  apply (simp add: sublist_Cons_right)
  done

text \<open>
  C3 fails on the code for the Next.js flavour. The plan \<open>bare_plan\<close> has no colours. The
  five files of the flavour are there, in order, but \<^verbatim>\<open>tailwind.config.ts\<close> has an empty
  colour record and none of the default literals, where the style sheets of the vanilla
  and React flavours have all four for the same plan.
\<close>

theorem style_config_without_default_colors:
  \<open>colors (style bare_plan) = []
   \<and> map_sum id (\<lambda>gf. map path_file (files gf)) (buildFilesFromPlan bare_plan Next) =
      Inr [''package.json'', ''app/page.tsx'', ''app/layout.tsx'', ''app/globals.css'',
           ''tailwind.config.ts'']
   \<and> file_content (buildFilesFromPlan bare_plan Next) ''tailwind.config.ts'' =
      Some (''import type { Config } from 'tailwindcss'\<newline>'' @
     ''\<newline>'' @
     ''const config: Config = {\<newline>'' @
     ''  content: [\<newline>'' @
     ''    './pages/**/*.{js,ts,jsx,tsx,mdx}',\<newline>'' @
     ''    './components/**/*.{js,ts,jsx,tsx,mdx}',\<newline>'' @
     ''    './app/**/*.{js,ts,jsx,tsx,mdx}',\<newline>'' @
     ''  ],\<newline>'' @
     ''  theme: {\<newline>'' @
     ''    extend: {\<newline>'' @
     ''      colors: {}\<newline>'' @
     ''    },\<newline>'' @
     ''  },\<newline>'' @
     ''  plugins: [],\<newline>'' @
     ''}\<newline>'' @
     ''export default config'')
   \<and> \<not> sublist ''#007bff'' (the (file_content (buildFilesFromPlan bare_plan Next) ''tailwind.config.ts''))
   \<and> \<not> sublist ''#f8f9fa'' (the (file_content (buildFilesFromPlan bare_plan Next) ''tailwind.config.ts''))
   \<and> \<not> sublist ''#fff'' (the (file_content (buildFilesFromPlan bare_plan Next) ''tailwind.config.ts''))
   \<and> \<not> sublist ''#333'' (the (file_content (buildFilesFromPlan bare_plan Next) ''tailwind.config.ts''))
   \<and> file_content (buildFilesFromPlan bare_plan Vanilla) ''styles.css'' = Some (renderCss bare_plan)
   \<and> file_content (buildFilesFromPlan bare_plan React) ''src/App.css'' = Some (renderCss bare_plan)
   \<and> sublist ''  color: #333;'' (renderCss bare_plan)
   \<and> sublist ''  background: #fff;'' (renderCss bare_plan)
   \<and> sublist ''  background: #007bff;'' (renderCss bare_plan)
   \<and> sublist ''  background: #f8f9fa;'' (renderCss bare_plan)\<close>
proof (intro conjI)
  show none: "colors (style bare_plan) = []"
    by (simp add: bare_plan_def)
  show "map_sum id (\<lambda>gf. map path_file (files gf)) (buildFilesFromPlan bare_plan Next) =
      Inr [''package.json'', ''app/page.tsx'', ''app/layout.tsx'', ''app/globals.css'',
           ''tailwind.config.ts'']"
    by (simp add: bare_plan_def buildFilesFromPlan_def renderNextPage_def
          renderNextPage_section_def or_else_def lookup_def)
  show \<open>file_content (buildFilesFromPlan bare_plan Next) ''tailwind.config.ts'' =
      Some (''import type { Config } from 'tailwindcss'\<newline>'' @
     ''\<newline>'' @
     ''const config: Config = {\<newline>'' @
     ''  content: [\<newline>'' @
     ''    './pages/**/*.{js,ts,jsx,tsx,mdx}',\<newline>'' @
     ''    './components/**/*.{js,ts,jsx,tsx,mdx}',\<newline>'' @
     ''    './app/**/*.{js,ts,jsx,tsx,mdx}',\<newline>'' @
     ''  ],\<newline>'' @
     ''  theme: {\<newline>'' @
     ''    extend: {\<newline>'' @
     ''      colors: {}\<newline>'' @
     ''    },\<newline>'' @
     ''  },\<newline>'' @
     ''  plugins: [],\<newline>'' @
     ''}\<newline>'' @
     ''export default config'')\<close>
    by (simp add: bare_plan_def file_content_def buildFilesFromPlan_def renderNextPage_def
          renderNextPage_section_def or_else_def lookup_def tailwindConfig_def colors_json_def
          stringify2_def)
  show "\<not> sublist ''#007bff'' (the (file_content (buildFilesFromPlan bare_plan Next) ''tailwind.config.ts''))"
    by code_simp
  show "\<not> sublist ''#f8f9fa'' (the (file_content (buildFilesFromPlan bare_plan Next) ''tailwind.config.ts''))"
    by code_simp
  show "\<not> sublist ''#fff'' (the (file_content (buildFilesFromPlan bare_plan Next) ''tailwind.config.ts''))"
    by code_simp
  show "\<not> sublist ''#333'' (the (file_content (buildFilesFromPlan bare_plan Next) ''tailwind.config.ts''))"
    by code_simp
  show "file_content (buildFilesFromPlan bare_plan Vanilla) ''styles.css'' = Some (renderCss bare_plan)"
    by (simp add: file_content_def buildFilesFromPlan_def Let_def renderHtml_def
          renderHtml_section_def or_else_def lookup_def bare_plan_def [THEN arg_cong, of sections]
          bare_plan_def [THEN arg_cong, of meta])
  show "file_content (buildFilesFromPlan bare_plan React) ''src/App.css'' = Some (renderCss bare_plan)"
    by (simp add: file_content_def buildFilesFromPlan_def Let_def renderReactApp_def
          renderReactApp_section_def or_else_def lookup_def bare_plan_def [THEN arg_cong, of sections]
          bare_plan_def [THEN arg_cong, of meta])
  show "sublist ''  color: #333;'' (renderCss bare_plan)"
    using none by (rule renderCss_text_default)
  show "sublist ''  background: #fff;'' (renderCss bare_plan)"
    using none by (rule renderCss_background_default)
  show "sublist ''  background: #007bff;'' (renderCss bare_plan)"
    using none by (rule renderCss_primary_default)
  show "sublist ''  background: #f8f9fa;'' (renderCss bare_plan)"
    using none by (rule renderCss_secondary_default)
qed

section \<open>The generate handler\<close>

text \<open>
  C5. A request body that fails validation gets status 400 with the issues as
  \<^verbatim>\<open>details\<close>, and nothing is handed to the service; the list of issues is not empty,
  and for a body that is an object the fields the issues name are the fields that break
  their constraint. A failure of the AI client gets status 500 with the message it
  raised, and so does a throw of the generator. A response has either status 200 and
  the members \<^verbatim>\<open>plan\<close> and \<^verbatim>\<open>files\<close>, or status 400 or 500 and no member other than
  \<^verbatim>\<open>error\<close> and \<^verbatim>\<open>details\<close>.
\<close>

theorem generate_handler_failures:
  "(\<forall>e. parse body = Inl e \<longrightarrow>
      (\<exists>issues. e = ZodError issues
        \<and> POST service (Inr body) =
            ([], \<lparr>status = 400,
                  json_body = [(''error'', ErrorMember ''Invalid request data''),
                               (''details'', DetailsMember issues)]\<rparr>)
        \<and> issues \<noteq> []
        \<and> (\<forall>kvs. body = JObj kvs \<longrightarrow> set (named_fields issues) = set (violated_fields kvs))))
   \<and> (\<forall>req e. parse body = Inr req \<and> generateSitePlan service req = Inl e \<longrightarrow>
        e = Error ''Failed to generate site plan''
        \<and> snd (POST service (Inr body)) =
            \<lparr>status = 500, json_body = [(''error'', ErrorMember ''Failed to generate site plan'')]\<rparr>)
   \<and> (\<forall>req plan e. parse body = Inr req \<and> generateSitePlan service req = Inr plan
          \<and> buildFilesFromPlan plan (framework_request req) = Inl e \<longrightarrow>
        (\<exists>m. e = TypeError m \<and> m \<noteq> []
          \<and> snd (POST service (Inr body)) = \<lparr>status = 500, json_body = [(''error'', ErrorMember m)]\<rparr>))
   \<and> (\<forall>request. status (snd (POST service request)) = 200 \<and>
          map fst (json_body (snd (POST service request))) = [''plan'', ''files'']
        \<or> status (snd (POST service request)) \<in> {400, 500} \<and>
          set (map fst (json_body (snd (POST service request)))) \<subseteq> {''error'', ''details''})"
proof (intro conjI allI impI)
  fix e assume e: "parse body = Inl e"
  let ?issues = "issues_of (BuildRequestSchema [] (Some body))"
  from e have isl: "isl (BuildRequestSchema [] (Some body))" and z: "e = ZodError ?issues"
    by (simp_all add: parse_failure)
  have ne: "?issues \<noteq> []"
  proof (cases body)
    case (JObj kvs)
    with isl have "violated_fields kvs \<noteq> []" by (simp add: schema_isl)
    then have "set (named_fields ?issues) \<noteq> {}"
      unfolding JObj schema_named_fields by simp
    then show ?thesis by (auto simp: named_fields_def)
  qed (simp_all add: BuildRequestSchema_def)
  have "POST service (Inr body) =
            ([], \<lparr>status = 400,
                  json_body = [(''error'', ErrorMember ''Invalid request data''),
                               (''details'', DetailsMember ?issues)]\<rparr>)"
    using e z by (simp add: POST_def)
  moreover have "set (named_fields ?issues) = set (violated_fields kvs)" if "body = JObj kvs" for kvs
    unfolding that by (rule schema_named_fields)
  ultimately show "\<exists>issues. e = ZodError issues
        \<and> POST service (Inr body) =
            ([], \<lparr>status = 400,
                  json_body = [(''error'', ErrorMember ''Invalid request data''),
                               (''details'', DetailsMember issues)]\<rparr>)
        \<and> issues \<noteq> []
        \<and> (\<forall>kvs. body = JObj kvs \<longrightarrow> set (named_fields issues) = set (violated_fields kvs))"
    using z ne by blast
next
  fix req e assume a: "parse body = Inr req \<and> generateSitePlan service req = Inl e"
  then show "e = Error ''Failed to generate site plan''"
    by (auto simp: generateSitePlan_def split: completion.splits)
  with a show "snd (POST service (Inr body)) =
            \<lparr>status = 500, json_body = [(''error'', ErrorMember ''Failed to generate site plan'')]\<rparr>"
    by (simp add: POST_def failure_def)
next
  fix req plan e
  assume a: "parse body = Inr req \<and> generateSitePlan service req = Inr plan
          \<and> buildFilesFromPlan plan (framework_request req) = Inl e"
  then have "thrown e" by (auto dest: generate_thrown)
  from catch_thrown [OF this] a
  show "\<exists>m. e = TypeError m \<and> m \<noteq> []
          \<and> snd (POST service (Inr body)) = \<lparr>status = 500, json_body = [(''error'', ErrorMember m)]\<rparr>"
    by (auto simp: POST_def)
next
  fix request
  have c: "status (catch e) \<in> {400, 500} \<and> set (map fst (json_body (catch e))) \<subseteq> {''error'', ''details''}" for e
    by (cases e) (simp_all add: failure_def)
  show "status (snd (POST service request)) = 200 \<and>
          map fst (json_body (snd (POST service request))) = [''plan'', ''files'']
        \<or> status (snd (POST service request)) \<in> {400, 500} \<and>
          set (map fst (json_body (snd (POST service request)))) \<subseteq> {''error'', ''details''}"
    using c by (auto simp: POST_def split: sum.splits)
qed

text \<open>
  The theorem at three requests: one with no sections, and the bakery request with a
  service that answers with no content and with one that answers with \<open>null_item_plan\<close>.
\<close>

theorem generate_handler_failures_witness:
  "parse (JObj empty_sections_fields) = Inl (ZodError [\<lparr>code = too_small, path = [Key ''sections'']\<rparr>])
   \<and> POST silent_service (Inr (JObj empty_sections_fields)) =
        ([], \<lparr>status = 400,
              json_body = [(''error'', ErrorMember ''Invalid request data''),
                           (''details'', DetailsMember [\<lparr>code = too_small, path = [Key ''sections'']\<rparr>])]\<rparr>)
   \<and> named_fields [\<lparr>code = too_small, path = [Key ''sections'']\<rparr>] = violated_fields empty_sections_fields
   \<and> parse (json_of_request bakery_request) = Inr bakery_request
   \<and> generateSitePlan silent_service bakery_request = Inl (Error ''Failed to generate site plan'')
   \<and> snd (POST silent_service (Inr (json_of_request bakery_request))) =
        \<lparr>status = 500, json_body = [(''error'', ErrorMember ''Failed to generate site plan'')]\<rparr>
   \<and> generateSitePlan null_item_service bakery_request = Inr null_item_plan
   \<and> snd (POST null_item_service (Inr (json_of_request bakery_request))) =
        \<lparr>status = 500,
         json_body = [(''error'', ErrorMember
           (''Cannot read properties of null (reading '' @ [CHR 0x27] @ ''title'' @ [CHR 0x27] @ '')''))]\<rparr>"
proof -
  have 1: "generateSitePlan silent_service bakery_request = Inl (Error ''Failed to generate site plan'')"
    by (simp add: generateSitePlan_def silent_service_def)
  have 2: "generateSitePlan null_item_service bakery_request = Inr null_item_plan"
    by (simp add: generateSitePlan_def null_item_service_def)
  have 3: "framework_request bakery_request = Vanilla"
    by (simp add: bakery_request_def)
  have 4: "named_fields [\<lparr>code = too_small, path = [Key ''sections'']\<rparr>] = violated_fields empty_sections_fields"
    by (simp add: named_fields_def violated_empty_sections)
  from generate_handler_failures [of "JObj empty_sections_fields" silent_service] parse_empty_sections
  have a: "POST silent_service (Inr (JObj empty_sections_fields)) =
        ([], \<lparr>status = 400,
              json_body = [(''error'', ErrorMember ''Invalid request data''),
                           (''details'', DetailsMember [\<lparr>code = too_small, path = [Key ''sections'']\<rparr>])]\<rparr>)"
    by auto
  from generate_handler_failures [of "json_of_request bakery_request" silent_service]
    parse_bakery_request 1
  have b: "snd (POST silent_service (Inr (json_of_request bakery_request))) =
        \<lparr>status = 500, json_body = [(''error'', ErrorMember ''Failed to generate site plan'')]\<rparr>"
    by blast
  from generate_handler_failures [of "json_of_request bakery_request" null_item_service]
    parse_bakery_request 2 null_item_plan_throws 3
  have c: "snd (POST null_item_service (Inr (json_of_request bakery_request))) =
        \<lparr>status = 500,
         json_body = [(''error'', ErrorMember
           (''Cannot read properties of null (reading '' @ [CHR 0x27] @ ''title'' @ [CHR 0x27] @ '')''))]\<rparr>"
    by fastforce
  from parse_empty_sections a 4 parse_bakery_request 1 b 2 c show ?thesis by simp
qed

section \<open>Text direction\<close>

text \<open>
  C6 fails on the code for the React flavour: \<^verbatim>\<open>public/index.html\<close> of a Persian plan
  has no \<^verbatim>\<open>dir\<close> attribute, where \<^verbatim>\<open>index.html\<close> of the vanilla flavour and
  \<^verbatim>\<open>app/layout.tsx\<close> of the Next.js flavour have \<^verbatim>\<open>dir="rtl"\<close> for the same plan.
\<close>

theorem react_index_html_has_no_direction:
  \<open>language (meta persian_plan) = ''fa''
   \<and> file_content (buildFilesFromPlan persian_plan React) ''public/index.html'' =
     Some (''<!DOCTYPE html>\<newline>'' @
     ''<html lang="fa">\<newline>'' @
     ''<head>\<newline>'' @
     ''  <meta charset="utf-8" />\<newline>'' @
     ''  <meta name="viewport" content="width=device-width, initial-scale=1" />\<newline>'' @
     ''  <title>Nanvayi</title>\<newline>'' @
     ''</head>\<newline>'' @
     ''<body>\<newline>'' @
     ''  <div id="root"></div>\<newline>'' @
     ''</body>\<newline>'' @
     ''</html>'')
   \<and> sublist ''<html lang="fa" dir="rtl">''
        (the (file_content (buildFilesFromPlan persian_plan Vanilla) ''index.html''))
   \<and> sublist ''<html lang="fa" dir="rtl">''
        (the (file_content (buildFilesFromPlan persian_plan Next) ''app/layout.tsx''))\<close>
proof (intro conjI)
  show "language (meta persian_plan) = ''fa''"
    by (simp add: persian_plan_def)
  show \<open>file_content (buildFilesFromPlan persian_plan React) ''public/index.html'' =
     Some (''<!DOCTYPE html>\<newline>'' @
     ''<html lang="fa">\<newline>'' @
     ''<head>\<newline>'' @
     ''  <meta charset="utf-8" />\<newline>'' @
     ''  <meta name="viewport" content="width=device-width, initial-scale=1" />\<newline>'' @
     ''  <title>Nanvayi</title>\<newline>'' @
     ''</head>\<newline>'' @
     ''<body>\<newline>'' @
     ''  <div id="root"></div>\<newline>'' @
     ''</body>\<newline>'' @
     ''</html>'')\<close>
    by (simp add: persian_plan_def file_content_def buildFilesFromPlan_def renderReactApp_def
          renderReactApp_section_def or_else_def lookup_def)
  show \<open>sublist ''<html lang="fa" dir="rtl">''
        (the (file_content (buildFilesFromPlan persian_plan Vanilla) ''index.html''))\<close>
    by code_simp
  show \<open>sublist ''<html lang="fa" dir="rtl">''
        (the (file_content (buildFilesFromPlan persian_plan Next) ''app/layout.tsx''))\<close>
    by code_simp
qed

section \<open>A request with no sections\<close>

text \<open>
  C7. A request object whose \<^verbatim>\<open>sections\<close> is the empty array fails validation with an
  issue at \<^verbatim>\<open>sections\<close>, the only issue when no other field breaks its constraint; the
  handler answers 400 and hands nothing to the service, whatever the service would say.
\<close>

theorem empty_sections_rejected:
  assumes "lookup kvs ''sections'' = Some (JArr [])"
  shows "\<exists>issues. parse (JObj kvs) = Inl (ZodError issues)
     \<and> \<lparr>code = too_small, path = [Key ''sections'']\<rparr> \<in> set issues
     \<and> (violated_fields kvs = [''sections''] \<longrightarrow> issues = [\<lparr>code = too_small, path = [Key ''sections'']\<rparr>])
     \<and> POST service (Inr (JObj kvs)) =
          ([], \<lparr>status = 400,
                json_body = [(''error'', ErrorMember ''Invalid request data''),
                             (''details'', DetailsMember issues)]\<rparr>)"
proof -
  let ?r = "BuildRequestSchema [] (Some (JObj kvs))"
  have s: "z_array_min (z_enum section_table) 1 [Key ''sections''] (lookup kvs ''sections'')
      = Inl [\<lparr>code = too_small, path = [Key ''sections'']\<rparr>]"
    by (simp add: assms z_array_min_def)
  then have mem: "\<lparr>code = too_small, path = [Key ''sections'']\<rparr> \<in> set (issues_of ?r)"
    by (simp add: schema_issues)
  then have "isl ?r" by (cases ?r) auto
  then have p: "parse (JObj kvs) = Inl (ZodError (issues_of ?r))"
    by (simp add: parse_failure)
  have single: "issues_of ?r = [\<lparr>code = too_small, path = [Key ''sections'']\<rparr>]"
    if "violated_fields kvs = [''sections'']"
  proof -
    from that have ok: "field_ok kvs ''intent''" "field_ok kvs ''framework''" "field_ok kvs ''theme''"
      "field_ok kvs ''language''" "field_ok kvs ''brand''"
      by (auto simp: violated_fields_def request_fields_def split: if_splits)
    have e: "\<not> isl x \<Longrightarrow> issues_of x = []" for x :: "'a parsed"
      by (cases x) simp_all
    from ok show ?thesis
      by (simp add: schema_issues s [unfolded One_nat_def] field_ok_def e intent_schema_ok
          z_enum_ok theme_schema_ok
          z_optional_ok [OF brand_schema_ok] framework_table_def language_table_def)
  qed
  from p mem single show ?thesis
    by (intro exI [of _ "issues_of ?r"]) (simp add: POST_def)
qed

theorem empty_sections_rejected_witness:
  "lookup empty_sections_fields ''sections'' = Some (JArr [])
   \<and> violated_fields empty_sections_fields = [''sections'']
   \<and> parse (JObj empty_sections_fields)
       = Inl (ZodError [\<lparr>code = too_small, path = [Key ''sections'']\<rparr>])
   \<and> POST null_item_service (Inr (JObj empty_sections_fields)) =
          ([], \<lparr>status = 400,
                json_body = [(''error'', ErrorMember ''Invalid request data''),
                             (''details'', DetailsMember [\<lparr>code = too_small, path = [Key ''sections'']\<rparr>])]\<rparr>)"
proof -
  have 1: "lookup empty_sections_fields ''sections'' = Some (JArr [])"
    by (simp add: empty_sections_fields_def lookup_simps)
  from empty_sections_rejected [OF 1, of null_item_service] violated_empty_sections 1
  show ?thesis by auto
qed

section \<open>Validation of a valid request\<close>

text \<open>
  C8. A typed request that meets the constraints (the intent of 3 to 2000 characters, at
  least one section; the enumerations hold by the type) is returned by the validation
  as it is, field for field.
\<close>

theorem validation_round_trip:
  "valid_request r \<Longrightarrow> parse (json_of_request r) = Inr r"
  by (rule parse_json_of_request)

theorem validation_round_trip_witness:
  "valid_request bakery_request \<and> parse (json_of_request bakery_request) = Inr bakery_request"
  using validation_round_trip [of bakery_request] valid_bakery_request by simp

section \<open>The part of the plan that is read\<close>

text \<open>
  C10. The generator never reads \<^verbatim>\<open>plan.assets\<close>: plans that agree on \<^verbatim>\<open>meta\<close>,
  \<^verbatim>\<open>sections\<close> and \<^verbatim>\<open>style\<close> give the same result for every flavour.
\<close>

theorem assets_noninterference:
  "meta p = meta q \<Longrightarrow> sections p = sections q \<Longrightarrow> style p = style q
   \<Longrightarrow> buildFilesFromPlan p framework = buildFilesFromPlan q framework"
  by (simp add: buildFilesFromPlan_def renderHtml_def renderCss_def renderJs_def
        renderReactApp_def renderNextPage_def baseLayout_def tailwindConfig_def)

theorem assets_noninterference_witness:
  "meta gallery_plan_with_image = meta gallery_plan
   \<and> sections gallery_plan_with_image = sections gallery_plan
   \<and> style gallery_plan_with_image = style gallery_plan
   \<and> assets gallery_plan_with_image \<noteq> assets gallery_plan
   \<and> buildFilesFromPlan gallery_plan_with_image Vanilla = buildFilesFromPlan gallery_plan Vanilla"
proof -
  have 1: "meta gallery_plan_with_image = meta gallery_plan"
    and 2: "sections gallery_plan_with_image = sections gallery_plan"
    and 3: "style gallery_plan_with_image = style gallery_plan"
    and 4: "assets gallery_plan_with_image \<noteq> assets gallery_plan"
    by (simp_all add: gallery_plan_with_image_def gallery_plan_def)
  from assets_noninterference [OF 1 2 3, of Vanilla] 1 2 3 4 show ?thesis by simp
qed

end
